theory Spec2Isabelle
  imports Complex_Main "HOL-Library.Sublist"
begin

section \<open>Python values\<close>

text \<open>
  A Python \<open>str\<close> is a sequence of code points. It is modelled as a \<open>string\<close> whose
  characters stand for the code points 0..255; \<open>length\<close> then counts what Python's
  \<open>len\<close> counts. Python's \<open>float\<close> readings of the clock are modelled as reals.
  The values that \<open>request.get_json()\<close> can return, and that \<open>jsonify\<close> accepts,
  are the following; a \<open>dict\<close> is an association list read with \<open>map_of\<close>.
\<close>

datatype json =
    JNull
  | JBool bool
  | JInt int
  | JFloat real
  | JStr string
  | JList "json list"
  | JObj "(string \<times> json) list"

text \<open>Python's truth value of an object (\<open>not x\<close> is its negation).\<close>

fun truthy :: "json \<Rightarrow> bool" where
  "truthy JNull = False"
| "truthy (JBool b) = b"
| "truthy (JInt n) = (n \<noteq> 0)"
| "truthy (JFloat r) = (r \<noteq> 0)"
| "truthy (JStr s) = (s \<noteq> [])"
| "truthy (JList xs) = (xs \<noteq> [])"
| "truthy (JObj kvs) = (kvs \<noteq> [])"

text \<open>The name Python prints for the type of a value, as it appears in error messages.\<close>

fun type_name :: "json \<Rightarrow> string" where
  "type_name JNull = ''NoneType''"
| "type_name (JBool b) = ''bool''"
| "type_name (JInt n) = ''int''"
| "type_name (JFloat r) = ''float''"
| "type_name (JStr s) = ''str''"
| "type_name (JList xs) = ''list''"
| "type_name (JObj kvs) = ''dict''"

subsection \<open>String operations\<close>

text \<open>\<open>str.isspace\<close> on one code point below 256: U+0009..U+000D, U+001C..U+0020,
  U+0085 and U+00A0.\<close>

definition is_space :: "char \<Rightarrow> bool" where
  "is_space c =
     (let n = (of_char c :: nat)
      in (9 \<le> n \<and> n \<le> 13) \<or> (28 \<le> n \<and> n \<le> 32) \<or> n = 133 \<or> n = 160)"

text \<open>\<open>s.strip()\<close>: leading and trailing whitespace removed.\<close>

definition strip :: "string \<Rightarrow> string" where
  "strip s = rev (dropWhile is_space (rev (dropWhile is_space s)))"

text \<open>\<open>s.split(sep)\<close> for a one-character separator: never returns the empty list.\<close>

fun split :: "char \<Rightarrow> string \<Rightarrow> string list" where
  "split sep [] = [[]]"
| "split sep (c # cs) =
     (if c = sep then [] # split sep cs
      else (case split sep cs of
              [] \<Rightarrow> [[c]]
            | w # ws \<Rightarrow> (c # w) # ws))"

text \<open>\<open>d in s\<close> for two strings: \<open>d\<close> occurs in \<open>s\<close> as a contiguous substring.\<close>

fun str_contains :: "string \<Rightarrow> string \<Rightarrow> bool" where
  "str_contains d [] = (d = [])"
| "str_contains d (c # cs) = (prefix d (c # cs) \<or> str_contains d cs)"

text \<open>\<open>str(n)\<close> for an integer: decimal digits, with a minus sign when negative.\<close>

fun digits :: "nat \<Rightarrow> string" where
  "digits n =
     (if n < 10 then [''0123456789'' ! n]
      else digits (n div 10) @ [''0123456789'' ! (n mod 10)])"

definition str_int :: "int \<Rightarrow> string" where
  "str_int i = (if i < 0 then CHR ''-'' # digits (nat (- i)) else digits (nat i))"

text \<open>\<open>sep.join(xs)\<close>.\<close>

fun join :: "string \<Rightarrow> string list \<Rightarrow> string" where
  "join sep [] = []"
| "join sep [x] = x"
| "join sep (x # y # ys) = x @ sep @ join sep (y # ys)"

section \<open>Configuration (config/settings.py)\<close>

text \<open>The fields of \<open>Config\<close> that the request path reads. \<open>API_KEY\<close> and \<open>ALLOWED_IPS\<close>
  are \<open>None\<close> when their environment variable is unset.\<close>

record config =
  PORT :: int
  DEBUG :: bool
  OLLAMA_BASE_URL :: string
  OLLAMA_TIMEOUT :: int
  LOG_LEVEL :: string
  CORS_ORIGINS :: string
  API_KEY :: "string option"
  ALLOWED_IPS :: "string option"
  RATE_LIMIT_ENABLED :: bool
  RATE_LIMIT_PER_MINUTE :: int

definition get_allowed_ips_list :: "config \<Rightarrow> string list" where
  "get_allowed_ips_list cfg =
     (case ALLOWED_IPS cfg of
        None \<Rightarrow> []
      | Some s \<Rightarrow> if s \<noteq> [] then map strip (split CHR '','' s) else [])"

section \<open>Response envelope (src/utils.py)\<close>

text \<open>Both builders read the clock; the reading is the parameter \<open>ts\<close>.\<close>

definition create_success_response :: "real \<Rightarrow> json \<Rightarrow> string \<Rightarrow> json" where
  "create_success_response ts data message =
     JObj [(''status'', JStr ''success''),
           (''message'', JStr message),
           (''data'', data),
           (''timestamp'', JFloat ts)]"

definition create_error_response :: "real \<Rightarrow> string \<Rightarrow> string \<Rightarrow> json" where
  "create_error_response ts error code =
     JObj [(''status'', JStr ''error''),
           (''error'', JStr error),
           (''error_code'', JStr code),
           (''timestamp'', JFloat ts)]"

text \<open>An HTTP response: the JSON body given to \<open>jsonify\<close> and the status code
  (200 when the view returns the body alone).\<close>

type_synonym response = "json \<times> nat"

section \<open>Admission middleware (src/api.py, security_middleware)\<close>

text \<open>What the middleware reads of a Flask request. \<open>remote_addr\<close> may be \<open>None\<close>.
  The keys of \<open>headers\<close> are the header names as the code writes them.\<close>

record request =
  path :: string
  remote_addr :: "string option"
  headers :: "string \<rightharpoonup> string"
  args :: "string \<rightharpoonup> string"
  is_json :: bool
  get_json :: json

text \<open>\<open>rate_limit_storage\<close>: a \<open>defaultdict\<close> of deques of clock readings, keyed by the
  client address. Reading a missing key creates it with an empty deque.\<close>

type_synonym storage = "string option \<rightharpoonup> real list"

definition storage_get :: "storage \<Rightarrow> string option \<Rightarrow> real list" where
  "storage_get st ip = (case st ip of None \<Rightarrow> [] | Some q \<Rightarrow> q)"

text \<open>The loop \<open>while request_times and current_time - request_times[0] > 60:
  request_times.popleft()\<close>.\<close>

fun popleft_old :: "real \<Rightarrow> real list \<Rightarrow> real list" where
  "popleft_old current_time [] = []"
| "popleft_old current_time (t # ts) =
     (if current_time - t > 60 then popleft_old current_time ts else t # ts)"

text \<open>\<open>a or b\<close> on two optional strings: \<open>a\<close> when it is a non-empty string, else \<open>b\<close>.\<close>

definition py_or :: "string option \<Rightarrow> string option \<Rightarrow> string option" where
  "py_or a b = (case a of None \<Rightarrow> b | Some s \<Rightarrow> if s \<noteq> [] then Some s else b)"

text \<open>The API-key check, lines 107-115: the end of the middleware.
  \<open>None\<close> is the middleware returning nothing, so that the request goes on to its view.\<close>

definition api_key_check :: "config \<Rightarrow> real \<Rightarrow> request \<Rightarrow> response option" where
  "api_key_check cfg ts req =
     (case API_KEY cfg of
        None \<Rightarrow> None
      | Some key \<Rightarrow>
          if key = [] then None
          else
            (let provided_key = py_or (headers req ''X-API-Key'') (args req ''api_key'')
             in if provided_key \<noteq> Some key
                then Some (create_error_response ts
                             ''API key mancante o non valida'' ''INVALID_API_KEY'', 401)
                else None))"

text \<open>The allow-list check followed by the API-key check, lines 98-115.\<close>

definition allowed_ips_check :: "config \<Rightarrow> real \<Rightarrow> request \<Rightarrow> response option" where
  "allowed_ips_check cfg ts req =
     (let allowed_ips = get_allowed_ips_list cfg
      in if allowed_ips \<noteq> [] \<and>
            (case remote_addr req of None \<Rightarrow> True | Some a \<Rightarrow> a \<notin> set allowed_ips)
         then Some (create_error_response ts
                      ''Accesso negato: IP non autorizzato'' ''UNAUTHORIZED_IP'', 403)
         else api_key_check cfg ts req)"

text \<open>The whole middleware. \<open>current_time\<close> is the clock reading of line 80, \<open>ts\<close> the
  one taken when an error envelope is built. The result is the response that denies the
  request, or \<open>None\<close>, and the storage as the call leaves it.\<close>

definition security_middleware ::
  "config \<Rightarrow> real \<Rightarrow> real \<Rightarrow> storage \<Rightarrow> request \<Rightarrow> response option \<times> storage" where
  "security_middleware cfg current_time ts st req =
     (if path req = ''/health'' then (None, st)
      else if RATE_LIMIT_ENABLED cfg then
        (let client_ip = remote_addr req;
             request_times = popleft_old current_time (storage_get st client_ip)
         in if int (length request_times) \<ge> RATE_LIMIT_PER_MINUTE cfg
            then (Some (create_error_response ts
                          (''Rate limit superato: massimo '' @
                           str_int (RATE_LIMIT_PER_MINUTE cfg) @ '' richieste per minuto'')
                          ''RATE_LIMIT_EXCEEDED'', 429),
                  st(client_ip \<mapsto> request_times))
            else (allowed_ips_check cfg ts req,
                  st(client_ip \<mapsto> request_times @ [current_time])))
      else (allowed_ips_check cfg ts req, st))"

section \<open>Exceptions\<close>

text \<open>
  Python exceptions, each with the text that \<open>str(e)\<close> gives. \<open>ResponseError\<close> is raised
  by the \<open>ollama\<close> client, \<open>CalledProcessError\<close> and \<open>TimeoutExpired\<close> by
  \<open>subprocess.run\<close>; \<open>OtherException\<close> is any further exception of a collaborator.
  The others are raised by Python's own operations.
\<close>

datatype exn =
    ResponseError string
  | CalledProcessError string
  | TimeoutExpired string
  | TypeError string
  | AttributeError string
  | KeyError string
  | OverflowError string
  | OtherException string

fun str_exn :: "exn \<Rightarrow> string" where
  "str_exn (ResponseError m) = m"
| "str_exn (CalledProcessError m) = m"
| "str_exn (TimeoutExpired m) = m"
| "str_exn (TypeError m) = m"
| "str_exn (AttributeError m) = m"
| "str_exn (KeyError m) = m"
| "str_exn (OverflowError m) = m"
| "str_exn (OtherException m) = m"

text \<open>A name between apostrophes, as Python's messages write it.\<close>

definition quoted :: "string \<Rightarrow> string" where
  "quoted s = CHR 0x27 # s @ [CHR 0x27]"

text \<open>Whether the rate limiter lets a request through: it is disabled, or the record
  of the client, once its old entries are dropped, holds fewer entries than the budget.\<close>

definition rate_limit_admits :: "config \<Rightarrow> real \<Rightarrow> storage \<Rightarrow> request \<Rightarrow> bool" where
  "rate_limit_admits cfg current_time st req =
     (\<not> (RATE_LIMIT_ENABLED cfg \<and>
         int (length (popleft_old current_time (storage_get st (remote_addr req))))
           \<ge> RATE_LIMIT_PER_MINUTE cfg))"

text \<open>Whether the allow-list lets a request through: the list is empty, or it holds the
  source address.\<close>

definition allow_list_admits :: "config \<Rightarrow> request \<Rightarrow> bool" where
  "allow_list_admits cfg req =
     (get_allowed_ips_list cfg = [] \<or>
      (case remote_addr req of None \<Rightarrow> False | Some a \<Rightarrow> a \<in> set (get_allowed_ips_list cfg)))"

section \<open>Example inputs\<close>

text \<open>The configuration that \<open>settings.py\<close> builds when no environment variable is set,
  and a plain request for \<open>/list\<close>.\<close>

definition default_config :: config where
  "default_config =
     \<lparr>PORT = 5000, DEBUG = True, OLLAMA_BASE_URL = ''http://localhost:11434'',
      OLLAMA_TIMEOUT = 3600, LOG_LEVEL = ''INFO'', CORS_ORIGINS = ''*'',
      API_KEY = None, ALLOWED_IPS = None,
      RATE_LIMIT_ENABLED = False, RATE_LIMIT_PER_MINUTE = 60\<rparr>"

definition example_request :: request where
  "example_request =
     \<lparr>path = ''/list'', remote_addr = Some ''10.0.0.7'',
      headers = Map.empty, args = Map.empty, is_json = False, get_json = JNull\<rparr>"

section \<open>Size formatting (src/utils.py, format_file_size)\<close>

text \<open>
  A Python \<open>float\<close> is a binary64 number; \<open>JFloat x\<close> stands for the \<open>float\<close> whose value
  is the real \<open>x\<close>. The function receives an \<open>int\<close> (or whatever \<open>model.get('size', 0)\<close>
  holds) and, once the loop runs, holds a \<open>float\<close>.

  \<open>float(n)\<close> for an integer \<open>n\<close>: the magnitude keeps its 53 leading bits, the rest is
  rounded to nearest with a tie going to the even 53-bit number, and a result of
  \<open>2 ^ 1024\<close> or more raises \<open>OverflowError\<close>.
\<close>

fun bit_length :: "nat \<Rightarrow> nat" where
  "bit_length m = (if m = 0 then 0 else Suc (bit_length (m div 2)))"

declare bit_length.simps [simp del]

definition int_to_float :: "int \<Rightarrow> exn + real" where
  "int_to_float n =
     (let m = nat \<bar>n\<bar>;
          e = bit_length m - 53;
          q = m div 2 ^ e;
          r = m mod 2 ^ e;
          q' = (if 2 * r > 2 ^ e \<or> (2 * r = 2 ^ e \<and> odd q) then q + 1 else q);
          v = q' * 2 ^ e
      in if v \<ge> 2 ^ 1024 then Inl (OverflowError ''int too large to convert to float'')
         else Inr (if n < 0 then - real v else real v))"

text \<open>
  \<open>f"{x:.1f}"\<close> prints the decimal number with one digit after the point that is
  nearest to the value of the \<open>float\<close>, a tie going to the even last digit.
\<close>

definition round_half_even :: "real \<Rightarrow> int" where
  "round_half_even x =
     (let m = \<lfloor>x\<rfloor>; f = x - of_int m
      in if f < 1 / 2 then m
         else if f > 1 / 2 then m + 1
         else if even m then m else m + 1)"

definition format_1f :: "real \<Rightarrow> string" where
  "format_1f x =
     (let t = round_half_even (\<bar>x\<bar> * 10)
      in (if x < 0 then ''-'' else []) @
         digits (nat (t div 10)) @ ''.'' @ digits (nat (t mod 10)))"

text \<open>The operations of the function on the value it holds. \<open>bool\<close> is a subtype of
  \<open>int\<close>; a value that is not a number makes the comparison raise.\<close>

definition eq_zero :: "json \<Rightarrow> bool" where
  "eq_zero v =
     (case v of
        JInt n \<Rightarrow> n = 0
      | JFloat x \<Rightarrow> x = 0
      | JBool b \<Rightarrow> \<not> b
      | _ \<Rightarrow> False)"

definition ge_1024 :: "json \<Rightarrow> exn + bool" where
  "ge_1024 v =
     (case v of
        JInt n \<Rightarrow> Inr (n \<ge> 1024)
      | JFloat x \<Rightarrow> Inr (x \<ge> 1024)
      | JBool b \<Rightarrow> Inr False
      | other \<Rightarrow>
          Inl (TypeError (quoted ''>='' @ '' not supported between instances of '' @
                          quoted (type_name other) @ '' and '' @ quoted ''int'')))"

definition truediv_1024 :: "json \<Rightarrow> exn + real" where
  "truediv_1024 v =
     (case v of
        JInt n \<Rightarrow> (case int_to_float n of Inl e \<Rightarrow> Inl e | Inr x \<Rightarrow> Inr (x / 1024))
      | JFloat x \<Rightarrow> Inr (x / 1024)
      | JBool b \<Rightarrow> Inr ((if b then 1 else 0) / 1024)
      | other \<Rightarrow>
          Inl (TypeError (''unsupported operand type(s) for /=: '' @
                          quoted (type_name other) @ '' and '' @ quoted ''float'')))"

definition format_spec_1f :: "json \<Rightarrow> exn + string" where
  "format_spec_1f v =
     (case v of
        JInt n \<Rightarrow> (case int_to_float n of Inl e \<Rightarrow> Inl e | Inr x \<Rightarrow> Inr (format_1f x))
      | JFloat x \<Rightarrow> Inr (format_1f x)
      | JBool b \<Rightarrow> Inr (format_1f (if b then 1 else 0))
      | other \<Rightarrow>
          Inl (TypeError (''unsupported format string passed to '' @
                          type_name other @ ''.__format__'')))"

definition size_names :: "string list" where
  "size_names = [''B'', ''KB'', ''MB'', ''GB'', ''TB'']"

text \<open>The loop \<open>while size_bytes >= 1024 and size_index < len(size_names) - 1\<close>, whose
  body is \<open>size_bytes /= 1024.0\<close> and \<open>size_index += 1\<close>. The first division turns an
  \<open>int\<close> into a \<open>float\<close>; dividing a \<open>float\<close> that is at least 1024 by 1024, a power
  of two, is exact.\<close>

function size_loop :: "json \<Rightarrow> nat \<Rightarrow> exn + json \<times> nat" where
  "size_loop size_bytes size_index =
     (case ge_1024 size_bytes of
        Inl e \<Rightarrow> Inl e
      | Inr ge \<Rightarrow>
          if ge \<and> size_index < length size_names - 1
          then (case truediv_1024 size_bytes of
                  Inl e \<Rightarrow> Inl e
                | Inr divided \<Rightarrow> size_loop (JFloat divided) (size_index + 1))
          else Inr (size_bytes, size_index))"
  by pat_completeness auto
termination
  by (relation "measure (\<lambda>(size_bytes, size_index). length size_names - 1 - size_index)") auto

declare size_loop.simps [simp del]

definition format_file_size :: "json \<Rightarrow> exn + string" where
  "format_file_size size_bytes =
     (if eq_zero size_bytes then Inr ''0 B''
      else (case size_loop size_bytes 0 of
              Inl e \<Rightarrow> Inl e
            | Inr (size_bytes', size_index) \<Rightarrow>
                (case format_spec_1f size_bytes' of
                   Inl e \<Rightarrow> Inl e
                 | Inr text \<Rightarrow> Inr (text @ '' '' @ size_names ! size_index))))"

text \<open>The value of a string of decimal digits.\<close>

definition digit_value :: "char \<Rightarrow> nat" where
  "digit_value c = of_char c - 48"

definition decimal_value :: "string \<Rightarrow> nat" where
  "decimal_value s = foldl (\<lambda>a c. 10 * a + digit_value c) 0 s"

section \<open>Model-name validation (src/utils.py, validate_model_name)\<close>

text \<open>The backslash is the code point 0x5C.\<close>

definition dangerous_chars :: "string list" where
  "dangerous_chars = [''/'', [CHR 0x5C], ''..'', ''<'', ''>'', ''|'', ''&'', '';'']"

definition isinstance_str :: "json \<Rightarrow> bool" where
  "isinstance_str v = (case v of JStr s \<Rightarrow> True | _ \<Rightarrow> False)"

definition validate_model_name :: "json \<Rightarrow> bool" where
  "validate_model_name model_name =
     (if \<not> truthy model_name \<or> \<not> isinstance_str model_name then False
      else (case model_name of
              JStr s \<Rightarrow>
                length (strip s) > 0 \<and>
                \<not> list_ex (\<lambda>char. str_contains char s) dangerous_chars
            | _ \<Rightarrow> False))"

section \<open>The collaborators of the router\<close>

text \<open>What \<open>ollama.generate\<close> and \<open>ollama.chat\<close> return: a mapping, or a generator when
  streaming.\<close>

datatype engine_result = Mapping "(string \<times> json) list" | Generator

text \<open>
  The Model Engine, the \<open>ollama\<close> command and the network probes are not part of the
  repository. Their answers are parameters of the model: for each call, the value it
  returns or the exception it raises, as a function of the arguments.
\<close>

record environment =
  ollama_generate :: "json \<Rightarrow> json \<Rightarrow> json \<Rightarrow> json \<Rightarrow> exn + engine_result"
  ollama_chat :: "json \<Rightarrow> json \<Rightarrow> json \<Rightarrow> json \<Rightarrow> exn + engine_result"
  ollama_list :: "exn + (string \<times> json) list"
  ollama_pull :: "string \<Rightarrow> int \<Rightarrow> exn + unit"
  subprocess_run :: "string list \<Rightarrow> nat \<Rightarrow> exn + string"
  get_local_ip :: string
  health_check_ollama :: "string \<Rightarrow> bool"

text \<open>The calls that a view makes to the Model Engine or to a subprocess, in order.\<close>

datatype call =
    CallGenerate json json json json
  | CallChat json json json json
  | CallList
  | CallPull string int
  | CallSubprocess "string list" nat

text \<open>\<open>d.get(k, dflt)\<close> and \<open>{**d, k: v}\<close> on a \<open>dict\<close>.\<close>

definition dict_get :: "(string \<times> json) list \<Rightarrow> string \<Rightarrow> json \<Rightarrow> json" where
  "dict_get d k dflt = (case map_of d k of None \<Rightarrow> dflt | Some v \<Rightarrow> v)"

fun dict_set :: "(string \<times> json) list \<Rightarrow> string \<Rightarrow> json \<Rightarrow> (string \<times> json) list" where
  "dict_set [] k v = [(k, v)]"
| "dict_set ((k', v') # d) k v = (if k' = k then (k, v) # d else (k', v') # dict_set d k v)"

section \<open>Payload validation (src/utils.py, validate_json_payload)\<close>

text \<open>
  \<open>[field for field in required_fields if field not in data]\<close>. On a \<open>dict\<close>, \<open>in\<close> looks
  for a key, on a \<open>list\<close> for an element, on a \<open>str\<close> for a substring; on the other
  values it raises \<open>TypeError\<close>.
\<close>

definition missing_fields :: "string list \<Rightarrow> json \<Rightarrow> exn + string list" where
  "missing_fields required_fields data =
     (case data of
        JObj d \<Rightarrow> Inr (filter (\<lambda>field. map_of d field = None) required_fields)
      | JList xs \<Rightarrow> Inr (filter (\<lambda>field. JStr field \<notin> set xs) required_fields)
      | JStr s \<Rightarrow> Inr (filter (\<lambda>field. \<not> str_contains field s) required_fields)
      | other \<Rightarrow>
          if required_fields = [] then Inr []
          else Inl (TypeError (''argument of type '' @ quoted (type_name other) @
                               '' is not iterable'')))"

text \<open>
  The decorator. A view returns a response and the calls it made; the decorated view
  returns the same, or a response of its own, or lets an exception escape (\<open>Inl\<close>).
  \<open>request.get_json()\<close> is taken to have parsed the body.
\<close>

definition validate_json_payload ::
  "string list \<Rightarrow> (request \<Rightarrow> response \<times> call list) \<Rightarrow> request
     \<Rightarrow> (exn + response) \<times> call list" where
  "validate_json_payload required_fields func req =
     (if \<not> is_json req
      then (Inr (JObj [(''error'', JStr ''Content-Type deve essere application/json'')], 400), [])
      else
        (let data = get_json req
         in if \<not> truthy data
            then (Inr (JObj [(''error'', JStr ''Payload JSON mancante o non valido'')], 400), [])
            else
              (case missing_fields required_fields data of
                 Inl e \<Rightarrow> (Inl e, [])
               | Inr missing \<Rightarrow>
                   if missing \<noteq> []
                   then (Inr (JObj [(''error'',
                                     JStr (''Campi mancanti: '' @ join '', '' missing))], 400), [])
                   else (case func req of (r, calls) \<Rightarrow> (Inr r, calls)))))"

text \<open>\<open>log_request_info\<close> writes to the log, calls the view and returns its result or
  re-raises its exception: it is the identity on what is modelled here.\<close>

definition log_request_info :: "'a \<Rightarrow> 'a" where
  "log_request_info func = func"

section \<open>The views (src/api.py)\<close>

subsection \<open>generate\<close>

text \<open>The \<open>try\<close> block of \<open>generate_response\<close>: the response it returns or the exception
  it raises, and the calls made.\<close>

definition generate_response_try ::
  "config \<Rightarrow> environment \<Rightarrow> real \<Rightarrow> request \<Rightarrow> (exn + response) \<times> call list" where
  "generate_response_try cfg env ts req =
     (case get_json req of
        JObj data \<Rightarrow>
          (let model = dict_get data ''model'' JNull;
               prompt = dict_get data ''prompt'' JNull;
               stream = dict_get data ''stream'' (JBool False);
               options = dict_get data ''options'' (JObj [])
           in if \<not> validate_model_name model
              then (Inr (create_error_response ts
                           ''Nome del modello non valido'' ''INVALID_MODEL_NAME'', 400), [])
              else
                (case options of
                   JObj opts \<Rightarrow>
                     (let options' = JObj (dict_set opts ''timeout'' (JInt (OLLAMA_TIMEOUT cfg)));
                          calls = [CallGenerate model prompt stream options']
                      in case ollama_generate env model prompt stream options' of
                           Inl e \<Rightarrow> (Inl e, calls)
                         | Inr Generator \<Rightarrow>
                             (Inl (TypeError (quoted ''generator'' @
                                              '' object is not subscriptable'')), calls)
                         | Inr (Mapping response) \<Rightarrow>
                             (case map_of response ''response'' of
                                None \<Rightarrow> (Inl (KeyError (quoted ''response'')), calls)
                              | Some text \<Rightarrow>
                                  (Inr (create_success_response ts
                                          (JObj [(''model'', model),
                                                 (''response'', text),
                                                 (''done'', dict_get response ''done'' (JBool True)),
                                                 (''context'', dict_get response ''context'' JNull),
                                                 (''total_duration'',
                                                    dict_get response ''total_duration'' JNull),
                                                 (''load_duration'',
                                                    dict_get response ''load_duration'' JNull),
                                                 (''prompt_eval_count'',
                                                    dict_get response ''prompt_eval_count'' JNull),
                                                 (''prompt_eval_duration'',
                                                    dict_get response ''prompt_eval_duration'' JNull),
                                                 (''eval_count'',
                                                    dict_get response ''eval_count'' JNull),
                                                 (''eval_duration'',
                                                    dict_get response ''eval_duration'' JNull)])
                                          ''Testo generato con successo'', 200), calls)))
                 | other \<Rightarrow>
                     (Inl (TypeError (quoted (type_name other) @
                                      '' object is not a mapping'')), [])))
      | other \<Rightarrow>
          (Inl (AttributeError (quoted (type_name other) @ '' object has no attribute '' @
                                quoted ''get'')), []))"

text \<open>The two \<open>except\<close> clauses of \<open>generate_response\<close>.\<close>

definition generate_response_except :: "real \<Rightarrow> exn \<Rightarrow> response" where
  "generate_response_except ts e =
     (case e of
        ResponseError m \<Rightarrow>
          (create_error_response ts (''Errore del modello Ollama: '' @ m) ''OLLAMA_ERROR'', 500)
      | _ \<Rightarrow>
          (create_error_response ts
             (''Errore interno durante la generazione: '' @ str_exn e) ''INTERNAL_ERROR'', 500))"

text \<open>The function as written, then as its decorators leave it.\<close>

definition generate_response_inner ::
  "config \<Rightarrow> environment \<Rightarrow> real \<Rightarrow> request \<Rightarrow> response \<times> call list" where
  "generate_response_inner cfg env ts req =
     (case generate_response_try cfg env ts req of
        (Inr r, calls) \<Rightarrow> (r, calls)
      | (Inl e, calls) \<Rightarrow> (generate_response_except ts e, calls))"

definition generate_response ::
  "config \<Rightarrow> environment \<Rightarrow> real \<Rightarrow> request \<Rightarrow> (exn + response) \<times> call list" where
  "generate_response cfg env ts =
     log_request_info
       (validate_json_payload [''model'', ''prompt''] (generate_response_inner cfg env ts))"

subsection \<open>chat\<close>

definition chat_try ::
  "config \<Rightarrow> environment \<Rightarrow> real \<Rightarrow> request \<Rightarrow> (exn + response) \<times> call list" where
  "chat_try cfg env ts req =
     (case get_json req of
        JObj data \<Rightarrow>
          (let model = dict_get data ''model'' JNull;
               messages = dict_get data ''messages'' JNull;
               stream = dict_get data ''stream'' (JBool False);
               options = dict_get data ''options'' (JObj [])
           in if \<not> validate_model_name model
              then (Inr (create_error_response ts
                           ''Nome del modello non valido'' ''INVALID_MODEL_NAME'', 400), [])
              else if (case messages of JList ms \<Rightarrow> ms = [] | _ \<Rightarrow> True)
              then (Inr (create_error_response ts
                           ''I messaggi devono essere una lista non vuota''
                           ''INVALID_MESSAGES_FORMAT'', 400), [])
              else
                (case options of
                   JObj opts \<Rightarrow>
                     (let options' = JObj (dict_set opts ''timeout'' (JInt (OLLAMA_TIMEOUT cfg)));
                          calls = [CallChat model messages stream options']
                      in case ollama_chat env model messages stream options' of
                           Inl e \<Rightarrow> (Inl e, calls)
                         | Inr Generator \<Rightarrow>
                             (Inl (TypeError (quoted ''generator'' @
                                              '' object is not subscriptable'')), calls)
                         | Inr (Mapping response) \<Rightarrow>
                             (case map_of response ''message'' of
                                None \<Rightarrow> (Inl (KeyError (quoted ''message'')), calls)
                              | Some message \<Rightarrow>
                                  (Inr (create_success_response ts
                                          (JObj [(''model'', model),
                                                 (''message'', message),
                                                 (''done'', dict_get response ''done'' (JBool True)),
                                                 (''total_duration'',
                                                    dict_get response ''total_duration'' JNull),
                                                 (''load_duration'',
                                                    dict_get response ''load_duration'' JNull),
                                                 (''prompt_eval_count'',
                                                    dict_get response ''prompt_eval_count'' JNull),
                                                 (''prompt_eval_duration'',
                                                    dict_get response ''prompt_eval_duration'' JNull),
                                                 (''eval_count'',
                                                    dict_get response ''eval_count'' JNull),
                                                 (''eval_duration'',
                                                    dict_get response ''eval_duration'' JNull)])
                                          ''Chat completata con successo'', 200), calls)))
                 | other \<Rightarrow>
                     (Inl (TypeError (quoted (type_name other) @
                                      '' object is not a mapping'')), [])))
      | other \<Rightarrow>
          (Inl (AttributeError (quoted (type_name other) @ '' object has no attribute '' @
                                quoted ''get'')), []))"

definition chat_except :: "real \<Rightarrow> exn \<Rightarrow> response" where
  "chat_except ts e =
     (case e of
        ResponseError m \<Rightarrow>
          (create_error_response ts (''Errore del modello Ollama: '' @ m) ''OLLAMA_ERROR'', 500)
      | _ \<Rightarrow>
          (create_error_response ts
             (''Errore interno durante la chat: '' @ str_exn e) ''INTERNAL_ERROR'', 500))"

definition chat_inner ::
  "config \<Rightarrow> environment \<Rightarrow> real \<Rightarrow> request \<Rightarrow> response \<times> call list" where
  "chat_inner cfg env ts req =
     (case chat_try cfg env ts req of
        (Inr r, calls) \<Rightarrow> (r, calls)
      | (Inl e, calls) \<Rightarrow> (chat_except ts e, calls))"

definition chat ::
  "config \<Rightarrow> environment \<Rightarrow> real \<Rightarrow> request \<Rightarrow> (exn + response) \<times> call list" where
  "chat cfg env ts =
     log_request_info
       (validate_json_payload [''model'', ''messages''] (chat_inner cfg env ts))"

subsection \<open>list\<close>

text \<open>The body of the loop over the models: one enriched descriptor.\<close>

definition enrich_model :: "json \<Rightarrow> exn + json" where
  "enrich_model model =
     (case model of
        JObj m \<Rightarrow>
          (case format_file_size (dict_get m ''size'' (JInt 0)) of
             Inl e \<Rightarrow> Inl e
           | Inr formatted \<Rightarrow>
               Inr (JObj [(''name'', dict_get m ''name'' JNull),
                          (''model'', dict_get m ''model'' JNull),
                          (''size'', dict_get m ''size'' (JInt 0)),
                          (''size_formatted'', JStr formatted),
                          (''digest'', dict_get m ''digest'' JNull),
                          (''modified_at'', dict_get m ''modified_at'' JNull),
                          (''details'', dict_get m ''details'' (JObj []))]))
      | other \<Rightarrow>
          Inl (AttributeError (quoted (type_name other) @ '' object has no attribute '' @
                               quoted ''get'')))"

fun enrich_models :: "json list \<Rightarrow> exn + json list" where
  "enrich_models [] = Inr []"
| "enrich_models (model # models) =
     (case enrich_model model of
        Inl e \<Rightarrow> Inl e
      | Inr enriched_model \<Rightarrow>
          (case enrich_models models of
             Inl e \<Rightarrow> Inl e
           | Inr enriched \<Rightarrow> Inr (enriched_model # enriched)))"

text \<open>\<open>for model in models\<close>: a \<open>list\<close> yields its elements, a \<open>dict\<close> its keys, a \<open>str\<close>
  its characters; the other values are not iterable.\<close>

definition iterate :: "json \<Rightarrow> exn + json list" where
  "iterate v =
     (case v of
        JList xs \<Rightarrow> Inr xs
      | JObj d \<Rightarrow> Inr (map (\<lambda>kv. JStr (fst kv)) d)
      | JStr s \<Rightarrow> Inr (map (\<lambda>c. JStr [c]) s)
      | other \<Rightarrow> Inl (TypeError (quoted (type_name other) @ '' object is not iterable'')))"

definition list_models_try ::
  "environment \<Rightarrow> real \<Rightarrow> (exn + response) \<times> call list" where
  "list_models_try env ts =
     (case ollama_list env of
        Inl e \<Rightarrow> (Inl e, [CallList])
      | Inr models_response \<Rightarrow>
          (case iterate (dict_get models_response ''models'' (JList [])) of
             Inl e \<Rightarrow> (Inl e, [CallList])
           | Inr models \<Rightarrow>
               (case enrich_models models of
                  Inl e \<Rightarrow> (Inl e, [CallList])
                | Inr enriched_models \<Rightarrow>
                    (Inr (create_success_response ts
                            (JObj [(''models'', JList enriched_models),
                                   (''total_count'', JInt (int (length enriched_models)))])
                            ''Lista modelli ottenuta con successo'', 200), [CallList]))))"

definition list_models :: "environment \<Rightarrow> real \<Rightarrow> response \<times> call list" where
  "list_models env ts =
     log_request_info
       (case list_models_try env ts of
          (Inr r, calls) \<Rightarrow> (r, calls)
        | (Inl e, calls) \<Rightarrow>
            ((create_error_response ts
                (''Errore nel recuperare la lista dei modelli: '' @ str_exn e)
                ''LIST_MODELS_ERROR'', 500), calls))"

subsection \<open>ps\<close>

text \<open>\<open>s.split()\<close>: the maximal runs of characters that are not whitespace.\<close>

fun split_ws_from :: "string \<Rightarrow> string \<Rightarrow> string list" where
  "split_ws_from word [] = (if word = [] then [] else [word])"
| "split_ws_from word (c # cs) =
     (if is_space c
      then (if word = [] then split_ws_from [] cs else word # split_ws_from [] cs)
      else split_ws_from (word @ [c]) cs)"

definition split_ws :: "string \<Rightarrow> string list" where
  "split_ws s = split_ws_from [] s"

text \<open>One line of the table that \<open>ollama ps\<close> prints, as zero or one process.\<close>

definition parse_ps_line :: "string \<Rightarrow> json list" where
  "parse_ps_line line =
     (if strip line \<noteq> [] then
        (let parts = split_ws line
         in if length parts \<ge> 4
            then [JObj [(''name'', JStr (parts ! 0)),
                        (''id'', JStr (parts ! 1)),
                        (''size'', JStr (parts ! 2)),
                        (''processor'', JStr (parts ! 3)),
                        (''until'', JStr (if length parts > 4 then join '' '' (drop 4 parts)
                                          else []))]]
            else [])
      else [])"

definition process_status :: "environment \<Rightarrow> real \<Rightarrow> response \<times> call list" where
  "process_status env ts =
     log_request_info
       (let calls = [CallSubprocess [''ollama'', ''ps''] 10]
        in case subprocess_run env [''ollama'', ''ps''] 10 of
             Inr stdout \<Rightarrow>
               (let output_lines =
                      (if strip stdout \<noteq> [] then split (CHR 0x0A) (strip stdout) else []);
                    processes =
                      concat (map parse_ps_line
                                (if length output_lines > 1 then tl output_lines else []))
                in ((create_success_response ts
                       (JObj [(''raw_output'', JStr stdout),
                              (''processes'', JList processes),
                              (''total_processes'', JInt (int (length processes)))])
                       ''Status processi ottenuto con successo'', 200), calls))
           | Inl (CalledProcessError m) \<Rightarrow>
               ((create_error_response ts (''Errore comando ollama ps: '' @ m)
                   ''OLLAMA_PS_ERROR'', 500), calls)
           | Inl (TimeoutExpired m) \<Rightarrow>
               ((create_error_response ts
                   (''Timeout durante l'' @ [CHR 0x27] @ ''esecuzione di ollama ps'')
                   ''OLLAMA_PS_TIMEOUT'', 500), calls)
           | Inl e \<Rightarrow>
               ((create_error_response ts
                   (''Errore interno durante ollama ps: '' @ str_exn e)
                   ''INTERNAL_ERROR'', 500), calls))"

subsection \<open>stop\<close>

text \<open>The three \<open>except\<close> clauses of \<open>stop_model\<close>. The first two read \<open>model\<close>; they
  handle what \<open>subprocess.run\<close> raises, when \<open>model\<close> is bound.\<close>

definition stop_model_except :: "real \<Rightarrow> string \<Rightarrow> exn \<Rightarrow> response" where
  "stop_model_except ts model e =
     (case e of
        CalledProcessError m \<Rightarrow>
          (create_error_response ts
             (''Errore nel fermare il modello '' @ model @ '': '' @ m)
             ''OLLAMA_STOP_ERROR'', 500)
      | TimeoutExpired m \<Rightarrow>
          (create_error_response ts
             (''Timeout durante l'' @ [CHR 0x27] @ ''arresto del modello '' @ model)
             ''OLLAMA_STOP_TIMEOUT'', 500)
      | _ \<Rightarrow>
          (create_error_response ts
             (''Errore interno durante l'' @ [CHR 0x27] @ ''arresto: '' @ str_exn e)
             ''INTERNAL_ERROR'', 500))"

text \<open>\<open>validate_model_name\<close> accepts strings only, so that the branch for a validated
  model that is not a string is never taken. Where \<open>data.get\<close> raises, \<open>model\<close> is not
  bound, and the clause that handles the \<open>AttributeError\<close> does not read it.\<close>

definition stop_model_inner ::
  "environment \<Rightarrow> real \<Rightarrow> request \<Rightarrow> response \<times> call list" where
  "stop_model_inner env ts req =
     (case get_json req of
        JObj data \<Rightarrow>
          (let model = dict_get data ''model'' JNull
           in if \<not> validate_model_name model
              then ((create_error_response ts
                       ''Nome del modello non valido'' ''INVALID_MODEL_NAME'', 400), [])
              else
                (case model of
                   JStr name \<Rightarrow>
                     (let calls = [CallSubprocess [''ollama'', ''stop'', name] 30]
                      in case subprocess_run env [''ollama'', ''stop'', name] 30 of
                           Inr stdout \<Rightarrow>
                             ((create_success_response ts
                                 (JObj [(''model'', model),
                                        (''output'', JStr stdout),
                                        (''command_success'', JBool True)])
                                 (''Modello '' @ name @ '' fermato con successo''), 200), calls)
                         | Inl e \<Rightarrow> (stop_model_except ts name e, calls))
                 | _ \<Rightarrow>
                     ((create_error_response ts
                         ''Nome del modello non valido'' ''INVALID_MODEL_NAME'', 400), [])))
      | other \<Rightarrow>
          (stop_model_except ts []
             (AttributeError (quoted (type_name other) @ '' object has no attribute '' @
                              quoted ''get'')), []))"

definition stop_model ::
  "environment \<Rightarrow> real \<Rightarrow> request \<Rightarrow> (exn + response) \<times> call list" where
  "stop_model env ts =
     log_request_info (validate_json_payload [''model''] (stop_model_inner env ts))"

subsection \<open>pull\<close>

definition pull_model_except :: "real \<Rightarrow> string \<Rightarrow> exn \<Rightarrow> response" where
  "pull_model_except ts model e =
     (case e of
        ResponseError m \<Rightarrow>
          (create_error_response ts
             (''Errore nel scaricare il modello '' @ model @ '': '' @ m)
             ''OLLAMA_PULL_ERROR'', 500)
      | _ \<Rightarrow>
          (create_error_response ts
             (''Errore interno durante il download: '' @ str_exn e)
             ''INTERNAL_ERROR'', 500))"

definition pull_model_inner ::
  "config \<Rightarrow> environment \<Rightarrow> real \<Rightarrow> request \<Rightarrow> response \<times> call list" where
  "pull_model_inner cfg env ts req =
     (case get_json req of
        JObj data \<Rightarrow>
          (let model = dict_get data ''model'' JNull
           in if \<not> validate_model_name model
              then ((create_error_response ts
                       ''Nome del modello non valido'' ''INVALID_MODEL_NAME'', 400), [])
              else
                (case model of
                   JStr name \<Rightarrow>
                     (let calls = [CallPull name (OLLAMA_TIMEOUT cfg)]
                      in case ollama_pull env name (OLLAMA_TIMEOUT cfg) of
                           Inr u \<Rightarrow>
                             ((create_success_response ts
                                 (JObj [(''model'', model),
                                        (''download_success'', JBool True)])
                                 (''Modello '' @ name @ '' scaricato con successo''), 200), calls)
                         | Inl e \<Rightarrow> (pull_model_except ts name e, calls))
                 | _ \<Rightarrow>
                     ((create_error_response ts
                         ''Nome del modello non valido'' ''INVALID_MODEL_NAME'', 400), [])))
      | other \<Rightarrow>
          (pull_model_except ts []
             (AttributeError (quoted (type_name other) @ '' object has no attribute '' @
                              quoted ''get'')), []))"

definition pull_model ::
  "config \<Rightarrow> environment \<Rightarrow> real \<Rightarrow> request \<Rightarrow> (exn + response) \<times> call list" where
  "pull_model cfg env ts =
     log_request_info (validate_json_payload [''model''] (pull_model_inner cfg env ts))"

subsection \<open>health\<close>

definition health_check :: "config \<Rightarrow> environment \<Rightarrow> response" where
  "health_check cfg env =
     log_request_info
       (let local_ip = get_local_ip env;
            ollama_status = health_check_ollama env (OLLAMA_BASE_URL cfg);
            base = ''http://'' @ local_ip @ '':'' @ str_int (PORT cfg)
        in (JObj [(''status'', JStr ''ok''),
                  (''message'', JStr ''API Ollama funzionante''),
                  (''version'', JStr ''1.0.0''),
                  (''local_ip'', JStr local_ip),
                  (''server_url'', JStr base),
                  (''ollama_status'', JStr (if ollama_status then ''online'' else ''offline'')),
                  (''ollama_url'', JStr (OLLAMA_BASE_URL cfg)),
                  (''configuration'',
                     JObj [(''debug'', JBool (DEBUG cfg)),
                           (''api_key_required'',
                              JBool (case API_KEY cfg of None \<Rightarrow> False | Some k \<Rightarrow> k \<noteq> [])),
                           (''ip_filtering'', JBool (get_allowed_ips_list cfg \<noteq> [])),
                           (''rate_limiting'',
                              JObj [(''enabled'', JBool (RATE_LIMIT_ENABLED cfg)),
                                    (''requests_per_minute'',
                                       if RATE_LIMIT_ENABLED cfg
                                       then JInt (RATE_LIMIT_PER_MINUTE cfg) else JNull)]),
                           (''cors_origins'', JStr (CORS_ORIGINS cfg)),
                           (''log_level'', JStr (LOG_LEVEL cfg))]),
                  (''endpoints'',
                     JObj [(''health'', JStr (''GET '' @ base @ ''/health'')),
                           (''generate'', JStr (''POST '' @ base @ ''/generate'')),
                           (''chat'', JStr (''POST '' @ base @ ''/chat'')),
                           (''list'', JStr (''GET '' @ base @ ''/list'')),
                           (''ps'', JStr (''GET '' @ base @ ''/ps'')),
                           (''stop'', JStr (''POST '' @ base @ ''/stop'')),
                           (''pull'', JStr (''POST '' @ base @ ''/pull''))])],
            200))"

subsection \<open>Error handlers\<close>

definition not_found :: "real \<Rightarrow> response" where
  "not_found ts =
     (create_error_response ts ''Endpoint non trovato'' ''ENDPOINT_NOT_FOUND'', 404)"

definition method_not_allowed :: "real \<Rightarrow> response" where
  "method_not_allowed ts =
     (create_error_response ts ''Metodo HTTP non consentito'' ''METHOD_NOT_ALLOWED'', 405)"

definition internal_server_error :: "real \<Rightarrow> response" where
  "internal_server_error ts =
     (create_error_response ts ''Errore interno del server'' ''INTERNAL_SERVER_ERROR'', 500)"

section \<open>The two envelope shapes\<close>

text \<open>
  A Success envelope is an object with exactly the fields \<open>status\<close>, \<open>message\<close>, \<open>data\<close>
  and \<open>timestamp\<close>, whose \<open>status\<close> is \<open>success\<close>; an Error envelope is an object with
  exactly the fields \<open>status\<close>, \<open>error\<close>, \<open>error_code\<close> and \<open>timestamp\<close>, whose
  \<open>status\<close> is \<open>error\<close>.
\<close>

definition is_success_envelope :: "json \<Rightarrow> bool" where
  "is_success_envelope j =
     (case j of
        JObj d \<Rightarrow>
          map fst d = [''status'', ''message'', ''data'', ''timestamp''] \<and>
          map_of d ''status'' = Some (JStr ''success'')
      | _ \<Rightarrow> False)"

definition is_error_envelope :: "json \<Rightarrow> bool" where
  "is_error_envelope j =
     (case j of
        JObj d \<Rightarrow>
          map fst d = [''status'', ''error'', ''error_code'', ''timestamp''] \<and>
          map_of d ''status'' = Some (JStr ''error'')
      | _ \<Rightarrow> False)"

text \<open>The code of an Error envelope, when there is one.\<close>

definition error_code_of :: "json \<Rightarrow> json option" where
  "error_code_of j = (case j of JObj d \<Rightarrow> map_of d ''error_code'' | _ \<Rightarrow> None)"

text \<open>The payload check of \<open>validate_json_payload\<close> lets the request through to the view.\<close>

definition payload_accepted :: "string list \<Rightarrow> request \<Rightarrow> bool" where
  "payload_accepted required_fields req =
     (is_json req \<and> truthy (get_json req) \<and>
      missing_fields required_fields (get_json req) = Inr [])"

text \<open>A Model Engine that is down: every call to it raises, \<open>ollama ps\<close> prints nothing
  and the probe finds nobody.\<close>

definition example_environment :: environment where
  "example_environment =
     \<lparr>ollama_generate = (\<lambda>model prompt stream options. Inl (ResponseError ''connection refused'')),
      ollama_chat = (\<lambda>model messages stream options. Inl (ResponseError ''connection refused'')),
      ollama_list = Inl (OtherException ''connection refused''),
      ollama_pull = (\<lambda>model timeout. Inl (ResponseError ''connection refused'')),
      subprocess_run = (\<lambda>argv timeout. Inr []),
      get_local_ip = ''192.168.1.5'',
      health_check_ollama = (\<lambda>base_url. False)\<rparr>"

text \<open>Exactly one of the two envelope shapes.\<close>

definition is_envelope :: "json \<Rightarrow> bool" where
  "is_envelope j = (is_success_envelope j \<noteq> is_error_envelope j)"

text \<open>What a view returns when it rejects the model name: the Error envelope with code
  \<open>INVALID_MODEL_NAME\<close> and HTTP 400, no call to the Model Engine or to a subprocess made.\<close>

definition rejected_model_name :: "real \<Rightarrow> (exn + response) \<times> call list" where
  "rejected_model_name ts =
     (Inr (create_error_response ts ''Nome del modello non valido'' ''INVALID_MODEL_NAME'', 400),
      [])"

section \<open>Properties of the admission middleware\<close>

lemma popleft_old_dropWhile:
  "popleft_old now q = dropWhile (\<lambda>t. now - t > 60) q"
  by (induction q) simp_all






text \<open>
  Claim C1. For a request to a path other than \<open>/health\<close>, with rate limiting enabled,
  the middleware first drops from the front of the client's record the timestamps that
  are more than 60 seconds older than the current time. If the number of remaining
  timestamps is at least the per-minute budget, the request is denied with HTTP 429 and
  code \<open>RATE_LIMIT_EXCEEDED\<close>, and the record is stored without the current timestamp.
  Otherwise the current timestamp is appended to the record and the outcome is that of the
  next check, the allow-list check.
\<close>

theorem rate_limit_step:
  assumes "path req \<noteq> ''/health''" and "RATE_LIMIT_ENABLED cfg"
  shows "security_middleware cfg current_time ts st req =
     (let client_ip = remote_addr req;
          remaining = dropWhile (\<lambda>t. current_time - t > 60) (storage_get st client_ip)
      in if int (length remaining) \<ge> RATE_LIMIT_PER_MINUTE cfg
         then (Some (create_error_response ts
                       (''Rate limit superato: massimo '' @
                        str_int (RATE_LIMIT_PER_MINUTE cfg) @ '' richieste per minuto'')
                       ''RATE_LIMIT_EXCEEDED'', 429),
               st(client_ip \<mapsto> remaining))
         else (allowed_ips_check cfg ts req,
               st(client_ip \<mapsto> remaining @ [current_time])))"
  using assms by (simp add: security_middleware_def popleft_old_dropWhile)

theorem rate_limit_step_witness:
  "security_middleware (default_config\<lparr>RATE_LIMIT_ENABLED := True, RATE_LIMIT_PER_MINUTE := 2\<rparr>)
      100 101 [Some ''10.0.0.7'' \<mapsto> [30, 39, 70, 99]] example_request
   = (Some (create_error_response 101
              ''Rate limit superato: massimo 2 richieste per minuto''
              ''RATE_LIMIT_EXCEEDED'', 429),
      [Some ''10.0.0.7'' \<mapsto> [70, 99]])"
  using rate_limit_step [of example_request
      "default_config\<lparr>RATE_LIMIT_ENABLED := True, RATE_LIMIT_PER_MINUTE := 2\<rparr>"
      100 101 "[Some ''10.0.0.7'' \<mapsto> [30, 39, 70, 99]]"]
  by (simp add: default_config_def example_request_def storage_get_def str_int_def)


text \<open>
  Claim C2. A request whose path is \<open>/health\<close> is let through by the middleware
  whatever the configuration, the client address, the headers and the query are: no
  response is produced, no check is made and the rate-limit storage is left as it was.
\<close>

theorem health_path_always_admitted:
  "security_middleware cfg current_time ts st (req\<lparr>path := ''/health''\<rparr>) = (None, st)"
  by (simp add: security_middleware_def)

theorem health_path_always_admitted_witness:
  "security_middleware
     (default_config\<lparr>RATE_LIMIT_ENABLED := True, RATE_LIMIT_PER_MINUTE := 0,
        ALLOWED_IPS := Some ''10.0.0.1'', API_KEY := Some ''s3cret''\<rparr>)
     100 101 Map.empty (example_request\<lparr>path := ''/health''\<rparr>) = (None, Map.empty)"
  using health_path_always_admitted [of
      "default_config\<lparr>RATE_LIMIT_ENABLED := True, RATE_LIMIT_PER_MINUTE := 0,
        ALLOWED_IPS := Some ''10.0.0.1'', API_KEY := Some ''s3cret''\<rparr>"
      100 101 Map.empty example_request]
  by simp

text \<open>
  Claim C3. For a request to a path other than \<open>/health\<close> that the rate limiter
  admits: when the list of allowed addresses is not empty, a source address that is not in
  the list is denied with HTTP 403 and code \<open>UNAUTHORIZED_IP\<close>, and a source address
  that is in the list passes on to the API-key check; when the list is empty the check is
  skipped. The list is empty when \<open>ALLOWED_IPS\<close> is unset or the empty string.
\<close>

theorem allow_list_check:
  assumes "path req \<noteq> ''/health''"
    and "rate_limit_admits cfg current_time st req"
  shows "fst (security_middleware cfg current_time ts st req) =
           (if get_allowed_ips_list cfg = [] then api_key_check cfg ts req
            else if (\<exists>a. remote_addr req = Some a \<and> a \<in> set (get_allowed_ips_list cfg))
            then api_key_check cfg ts req
            else Some (create_error_response ts
                         ''Accesso negato: IP non autorizzato'' ''UNAUTHORIZED_IP'', 403))
         \<and> (ALLOWED_IPS cfg = None \<or> ALLOWED_IPS cfg = Some [] \<longrightarrow> get_allowed_ips_list cfg = [])"
  using assms
  by (auto simp add: security_middleware_def rate_limit_admits_def Let_def allowed_ips_check_def
        get_allowed_ips_list_def split: option.splits)

theorem allow_list_check_witness:
  "fst (security_middleware (default_config\<lparr>ALLOWED_IPS := Some ''10.0.0.1, 10.0.0.2''\<rparr>)
          100 101 Map.empty example_request)
     = Some (create_error_response 101
               ''Accesso negato: IP non autorizzato'' ''UNAUTHORIZED_IP'', 403)
   \<and> get_allowed_ips_list (default_config\<lparr>ALLOWED_IPS := Some ''10.0.0.1, 10.0.0.2''\<rparr>)
       = [''10.0.0.1'', ''10.0.0.2'']"
  using allow_list_check [of example_request
      "default_config\<lparr>ALLOWED_IPS := Some ''10.0.0.1, 10.0.0.2''\<rparr>" 100 Map.empty 101]
  by (simp add: default_config_def example_request_def rate_limit_admits_def
        get_allowed_ips_list_def strip_def is_space_def)

text \<open>
  Claim C4, as stated, fails: the key in the \<open>api_key\<close> query parameter is not looked
  at when the \<open>X-API-Key\<close> header holds a non-empty value. Here the query carries the
  configured key, the header a wrong one, and the request is denied.
\<close>

theorem api_key_header_precedence:
  "security_middleware (default_config\<lparr>API_KEY := Some ''s3cret''\<rparr>) 100 101 Map.empty
     (example_request\<lparr>headers := [''X-API-Key'' \<mapsto> ''guess''],
                      args := [''api_key'' \<mapsto> ''s3cret'']\<rparr>)
   = (Some (create_error_response 101 ''API key mancante o non valida'' ''INVALID_API_KEY'', 401),
      Map.empty)"
  by (simp add: security_middleware_def default_config_def example_request_def
        allowed_ips_check_def get_allowed_ips_list_def api_key_check_def py_or_def)

text \<open>
  Claim C4, amended. With an API key configured (a non-empty string), the candidate key
  of a request is the value of the \<open>X-API-Key\<close> header when that header is present and
  not empty, and the value of the \<open>api_key\<close> query parameter otherwise. A request to a
  path other than \<open>/health\<close> that has passed the rate limiter and the allow-list is let
  through when its candidate equals the configured key, and is denied with HTTP 401 and
  code \<open>INVALID_API_KEY\<close> when the candidate differs or is missing. When no key is
  configured (unset or empty), the check is skipped.
\<close>

theorem api_key_check_candidate:
  assumes "path req \<noteq> ''/health''"
    and "rate_limit_admits cfg current_time st req"
    and "allow_list_admits cfg req"
  shows "fst (security_middleware cfg current_time ts st req) =
           (case API_KEY cfg of
              None \<Rightarrow> None
            | Some key \<Rightarrow>
                if key = [] then None
                else if (case headers req ''X-API-Key'' of
                           None \<Rightarrow> args req ''api_key''
                         | Some h \<Rightarrow> if h = [] then args req ''api_key'' else Some h) = Some key
                then None
                else Some (create_error_response ts
                             ''API key mancante o non valida'' ''INVALID_API_KEY'', 401))"
  using assms
  by (auto simp add: security_middleware_def rate_limit_admits_def allow_list_admits_def Let_def
        allowed_ips_check_def api_key_check_def py_or_def split: option.splits)

theorem api_key_check_candidate_witness:
  "fst (security_middleware (default_config\<lparr>API_KEY := Some ''s3cret''\<rparr>) 100 101 Map.empty
     (example_request\<lparr>headers := [''X-API-Key'' \<mapsto> ''''],
                      args := [''api_key'' \<mapsto> ''s3cret'']\<rparr>)) = None"
  using api_key_check_candidate [of
      "example_request\<lparr>headers := [''X-API-Key'' \<mapsto> ''''], args := [''api_key'' \<mapsto> ''s3cret'']\<rparr>"
      "default_config\<lparr>API_KEY := Some ''s3cret''\<rparr>" 100 Map.empty 101]
  by (simp add: default_config_def example_request_def rate_limit_admits_def
        allow_list_admits_def get_allowed_ips_list_def)



section \<open>Properties of the size formatting\<close>

lemma bit_length_bounds:
  "m > 0 \<Longrightarrow> 2 ^ (bit_length m - 1) \<le> m \<and> m < 2 ^ bit_length m"
proof (induction m rule: bit_length.induct)
  case (1 m)
  show ?case
  proof (cases "m div 2 = 0")
    case True
    with "1.prems" have m1: "m = 1" by (simp add: div_eq_0_iff)
    have "bit_length 0 = 0" by (subst bit_length.simps) simp
    then have "bit_length 1 = 1" by (subst bit_length.simps) simp
    with m1 show ?thesis by simp
  next
    case False
    then have pos: "m div 2 > 0" by simp
    with "1.prems" "1.IH" have IH: "2 ^ (bit_length (m div 2) - 1) \<le> m div 2"
      "m div 2 < 2 ^ bit_length (m div 2)" by simp_all
    from "1.prems" have bl: "bit_length m = Suc (bit_length (m div 2))"
      by (subst bit_length.simps) simp
    have blpos: "bit_length (m div 2) > 0"
      using pos by (subst bit_length.simps) simp
    then obtain j where j: "bit_length (m div 2) = Suc j" by (cases "bit_length (m div 2)") auto
    from IH(1) j have "2 * 2 ^ j \<le> 2 * (m div 2)" by simp
    also have "\<dots> \<le> m" by simp
    finally have lo: "2 ^ (bit_length m - 1) \<le> m" using bl j by simp
    from IH(2) have "m div 2 + 1 \<le> 2 ^ bit_length (m div 2)" by simp
    then have "2 * (m div 2) + 2 \<le> 2 * 2 ^ bit_length (m div 2)" by simp
    moreover have "m < 2 * (m div 2) + 2" by arith
    ultimately have hi: "m < 2 ^ bit_length m" using bl by simp
    from lo hi show ?thesis by simp
  qed
qed

lemma bit_length_le:
  assumes "m < 2 ^ k"
  shows "bit_length m \<le> k"
proof (cases "m = 0")
  case True
  then have "bit_length m = 0" by (subst bit_length.simps) simp
  then show ?thesis by simp
next
  case False
  then have "2 ^ (bit_length m - 1) \<le> m" using bit_length_bounds by simp
  from this assms have "(2::nat) ^ (bit_length m - 1) < 2 ^ k" by (rule le_less_trans)
  then have "bit_length m - 1 < k" by simp
  then show ?thesis by simp
qed

lemma bit_length_gt:
  assumes "2 ^ k \<le> m"
  shows "k < bit_length m"
proof -
  from assms have "m > 0" by (metis gr0I not_less_eq_eq power_not_zero zero_neq_numeral le_zero_eq)
  then have "m < 2 ^ bit_length m" using bit_length_bounds by simp
  with assms have "(2::nat) ^ k < 2 ^ bit_length m" by (rule le_less_trans)
  then show ?thesis by simp
qed

lemma int_to_float_exact:
  assumes "\<bar>n\<bar> < 2 ^ 53"
  shows "int_to_float n = Inr (of_int n)"
proof -
  let ?m = "nat \<bar>n\<bar>"
  from assms have m: "?m < 2 ^ 53" by (simp add: nat_less_iff)
  then have "bit_length ?m \<le> 53" by (rule bit_length_le)
  then have e: "bit_length ?m - 53 = 0" by simp
  have "(2::nat) ^ 53 < 2 ^ 1024" by simp
  with m have small: "\<not> 2 ^ 1024 \<le> ?m" by simp
  have "(if n < 0 then - real ?m else real ?m) = of_int n" by simp
  with small show ?thesis
    unfolding int_to_float_def Let_def e by simp
qed

lemma int_to_float_rounded:
  fixes n :: int
  defines "m \<equiv> nat \<bar>n\<bar>"
  defines "e \<equiv> bit_length m - 53"
  obtains v where
    "int_to_float n =
       (if v \<ge> 2 ^ 1024 then Inl (OverflowError ''int too large to convert to float'')
        else Inr (if n < 0 then - real v else real v))"
    and "(m div 2 ^ e) * 2 ^ e \<le> v" and "v \<le> (m div 2 ^ e + 1) * 2 ^ e"
    and "2 * \<bar>int v - int m\<bar> \<le> 2 ^ e"
proof -
  define q where "q = m div 2 ^ e"
  define r where "r = m mod 2 ^ e"
  define q' where "q' = (if 2 * r > 2 ^ e \<or> (2 * r = 2 ^ e \<and> odd q) then q + 1 else q)"
  define v where "v = q' * 2 ^ e"
  have eq: "int_to_float n =
       (if v \<ge> 2 ^ 1024 then Inl (OverflowError ''int too large to convert to float'')
        else Inr (if n < 0 then - real v else real v))"
    unfolding int_to_float_def Let_def v_def q'_def q_def r_def e_def m_def ..
  have lo: "q * 2 ^ e \<le> v" unfolding v_def q'_def by simp
  have hi: "v \<le> (q + 1) * 2 ^ e" unfolding v_def q'_def by simp
  have split: "m = q * 2 ^ e + r" unfolding q_def r_def by (rule div_mult_mod_eq [symmetric])
  have rlt: "r < 2 ^ e" unfolding r_def by simp
  have near: "2 * \<bar>int v - int m\<bar> \<le> 2 ^ e"
  proof -
    define E :: nat where "E = 2 ^ e"
    have rE: "int r < int E" using rlt unfolding E_def by (simp only: of_nat_less_iff)
    have "2 * \<bar>int v - int m\<bar> \<le> int E"
    proof (cases "2 * r > E \<or> (2 * r = E \<and> odd q)")
      case True
      then have "v = q * E + E" unfolding v_def q'_def E_def by (simp add: algebra_simps)
      with split have "int v = int m - int r + int E" unfolding E_def by simp
      moreover from True have "E \<le> 2 * r" by auto
      then have "int E \<le> 2 * int r" by linarith
      ultimately show ?thesis using rE by (simp add: abs_if)
    next
      case False
      then have "v = q * E" unfolding v_def q'_def E_def by simp
      with split have "int v = int m - int r" unfolding E_def by simp
      moreover from False have "2 * r \<le> E" by auto
      then have "2 * int r \<le> int E" by linarith
      ultimately show ?thesis by (simp add: abs_if)
    qed
    then show ?thesis unfolding E_def by simp
  qed
  show thesis
    by (rule that [OF eq lo [unfolded q_def] hi [unfolded q_def] near])
qed

lemma mantissa_bounds:
  fixes m :: nat
  defines "e \<equiv> bit_length m - 53"
  shows "m div 2 ^ e < 2 ^ 53" and "2 ^ 53 \<le> m \<Longrightarrow> 2 ^ 52 \<le> m div 2 ^ e"
proof -
  show "m div 2 ^ e < 2 ^ 53"
  proof (cases "m = 0")
    case True
    then show ?thesis by simp
  next
    case False
    then have "m < 2 ^ bit_length m" using bit_length_bounds by simp
    also have "(2::nat) ^ bit_length m \<le> 2 ^ (53 + e)"
      unfolding e_def by (intro power_increasing) simp_all
    finally have "m < 2 ^ 53 * 2 ^ e" by (simp add: power_add)
    then show ?thesis by (rule less_mult_imp_div_less)
  qed
next
  assume big: "2 ^ 53 \<le> m"
  then have "53 < bit_length m" by (rule bit_length_gt)
  then have bl: "bit_length m - 1 = 52 + e" unfolding e_def by simp
  from big have "m > 0" by (metis gr0I le_zero_eq power_not_zero zero_neq_numeral)
  then have "2 ^ (bit_length m - 1) \<le> m" using bit_length_bounds by simp
  then have "2 ^ 52 * 2 ^ e \<le> m" unfolding bl by (simp add: power_add)
  then have "(2 ^ 52 * 2 ^ e) div 2 ^ e \<le> m div 2 ^ e" by (rule div_le_mono)
  then show "2 ^ 52 \<le> m div 2 ^ e" by simp
qed

lemma int_to_float_defined:
  assumes "\<bar>n\<bar> < 2 ^ 1023"
  shows "\<exists>x. int_to_float n = Inr x"
proof -
  let ?m = "nat \<bar>n\<bar>"
  let ?e = "bit_length ?m - 53"
  from assms have m: "?m < 2 ^ 1023" by (simp add: nat_less_iff)
  then have bl: "bit_length ?m \<le> 1023" by (rule bit_length_le)
  obtain v where eq: "int_to_float n =
       (if v \<ge> 2 ^ 1024 then Inl (OverflowError ''int too large to convert to float'')
        else Inr (if n < 0 then - real v else real v))"
    and hi: "v \<le> (?m div 2 ^ ?e + 1) * 2 ^ ?e"
    by (rule int_to_float_rounded [of n])
  have "?m div 2 ^ ?e + 1 \<le> 2 ^ 53" using mantissa_bounds(1) [of ?m] by simp
  then have "(?m div 2 ^ ?e + 1) * 2 ^ ?e \<le> 2 ^ 53 * 2 ^ ?e" by (rule mult_le_mono1)
  also have "\<dots> = 2 ^ (53 + ?e)" by (simp add: power_add)
  also have "\<dots> \<le> 2 ^ 1023" using bl by (intro power_increasing) simp_all
  also have "\<dots> < (2::nat) ^ 1024" by simp
  finally have "(?m div 2 ^ ?e + 1) * 2 ^ ?e < 2 ^ 1024" .
  with hi have "\<not> v \<ge> 2 ^ 1024" by simp
  with eq show ?thesis by simp
qed

lemma int_to_float_ge_1024:
  assumes "int_to_float n = Inr x"
  shows "n \<ge> 1024 \<longleftrightarrow> x \<ge> 1024"
proof (cases "\<bar>n\<bar> < 2 ^ 53")
  case True
  then have "int_to_float n = Inr (of_int n)" by (rule int_to_float_exact)
  with assms have "x = of_int n" by simp
  then show ?thesis by simp
next
  case False
  let ?m = "nat \<bar>n\<bar>"
  let ?e = "bit_length ?m - 53"
  from False have big: "2 ^ 53 \<le> ?m" by (simp add: le_nat_iff)
  obtain v where eq: "int_to_float n =
       (if v \<ge> 2 ^ 1024 then Inl (OverflowError ''int too large to convert to float'')
        else Inr (if n < 0 then - real v else real v))"
    and lo: "(?m div 2 ^ ?e) * 2 ^ ?e \<le> v"
    by (rule int_to_float_rounded [of n])
  from eq assms have x: "x = (if n < 0 then - real v else real v)"
    by (simp split: if_splits)
  show ?thesis
  proof (cases "n < 0")
    case True
    with x have "x \<le> 0" by simp
    with True show ?thesis by simp
  next
    case False
    with big have n: "n \<ge> 2 ^ 53" by simp
    have "(2::nat) ^ 52 * 1 \<le> (?m div 2 ^ ?e) * 2 ^ ?e"
      using mantissa_bounds(2) [OF big] by (intro mult_le_mono) simp_all
    with lo have "2 ^ 52 \<le> v" by simp
    then have "real (2 ^ 52) \<le> real v" by (simp only: of_nat_le_iff)
    with False x have "x \<ge> 2 ^ 52" by simp
    then have "x \<ge> 1024" by simp
    moreover from n have "n \<ge> 1024" by simp
    ultimately show ?thesis by simp
  qed
qed

lemma size_loop_stop:
  "k \<le> 4 \<Longrightarrow> (k < 4 \<longrightarrow> y < 1024) \<Longrightarrow> size_loop (JFloat y) k = Inr (JFloat y, k)"
  by (subst size_loop.simps) (auto simp add: size_names_def ge_1024_def)

lemma size_loop_steps:
  "i + d \<le> 4 \<Longrightarrow> 1024 ^ d \<le> y \<Longrightarrow>
     size_loop (JFloat y) i = size_loop (JFloat (y / 1024 ^ d)) (i + d)"
proof (induction d arbitrary: y i)
  case 0
  then show ?case by simp
next
  case (Suc d)
  have "(1024::real) \<le> 1024 * 1024 ^ d" by simp
  moreover from Suc.prems(2) have "1024 * 1024 ^ d \<le> y" by simp
  ultimately have big: "1024 \<le> y" by (rule order_trans)
  from Suc.prems(1) have small: "i < length size_names - 1" by (simp add: size_names_def)
  have step: "size_loop (JFloat y) i = size_loop (JFloat (y / 1024)) (i + 1)"
    using big small by (subst size_loop.simps) (simp add: ge_1024_def truediv_1024_def)
  from Suc.prems(2) have "1024 ^ d \<le> y / 1024" by (simp add: field_simps)
  moreover from Suc.prems(1) have "(i + 1) + d \<le> 4" by simp
  ultimately have
    "size_loop (JFloat (y / 1024)) (i + 1) = size_loop (JFloat (y / 1024 / 1024 ^ d)) (i + 1 + d)"
    by (rule Suc.IH [rotated])
  with step show ?case by simp
qed

lemma size_loop_float:
  assumes "i + d \<le> 4" and "1024 ^ d \<le> y" and "i + d < 4 \<longrightarrow> y < 1024 ^ (d + 1)"
  shows "size_loop (JFloat y) i = Inr (JFloat (y / 1024 ^ d), i + d)"
proof -
  have "size_loop (JFloat y) i = size_loop (JFloat (y / 1024 ^ d)) (i + d)"
    using assms(1,2) by (rule size_loop_steps)
  moreover have "size_loop (JFloat (y / 1024 ^ d)) (i + d) = Inr (JFloat (y / 1024 ^ d), i + d)"
  proof (rule size_loop_stop [OF assms(1)], rule impI)
    assume "i + d < 4"
    with assms(3) have "y < 1024 ^ d * 1024" by simp
    then show "y / 1024 ^ d < 1024" by (simp add: field_simps)
  qed
  ultimately show ?thesis by simp
qed

lemma format_file_size_int:
  assumes nz: "n \<noteq> 0" and conv: "int_to_float n = Inr x"
    and k: "k \<le> 4" and lo: "k > 0 \<longrightarrow> 1024 ^ k \<le> x" and hi: "k < 4 \<longrightarrow> x < 1024 ^ (k + 1)"
  shows "format_file_size (JInt n) = Inr (format_1f (x / 1024 ^ k) @ '' '' @ size_names ! k)"
proof (cases "n \<ge> 1024")
  case True
  with conv have x: "x \<ge> 1024" using int_to_float_ge_1024 by blast
  have kpos: "k > 0"
  proof (rule ccontr)
    assume "\<not> k > 0"
    then have "k = 0" by simp
    with hi have "x < 1024" by simp
    with x show False by simp
  qed
  then obtain d where d: "k = Suc d" by (cases k) auto
  have first: "size_loop (JInt n) 0 = size_loop (JFloat (x / 1024)) 1"
    using True conv
    by (subst size_loop.simps) (simp add: ge_1024_def truediv_1024_def size_names_def)
  from lo kpos d have "1024 ^ d \<le> x / 1024" by (simp add: field_simps)
  moreover from k d have "1 + d \<le> 4" by simp
  moreover from hi d have "1 + d < 4 \<longrightarrow> x / 1024 < 1024 ^ (d + 1)" by (simp add: field_simps)
  ultimately have "size_loop (JFloat (x / 1024)) 1 = Inr (JFloat (x / 1024 / 1024 ^ d), 1 + d)"
    by (intro size_loop_float) simp_all
  with first d have "size_loop (JInt n) 0 = Inr (JFloat (x / 1024 ^ k), k)" by simp
  with nz show ?thesis
    by (simp add: format_file_size_def eq_zero_def format_spec_1f_def)
next
  case False
  with conv have x: "\<not> x \<ge> 1024" using int_to_float_ge_1024 by blast
  have k0: "k = 0"
  proof (rule ccontr)
    assume "k \<noteq> 0"
    then have kpos: "k > 0" by simp
    with lo have "1024 ^ k \<le> x" by simp
    moreover from kpos have "(1024::real) ^ 1 \<le> 1024 ^ k" by (intro power_increasing) simp_all
    ultimately have "1024 \<le> x" by simp
    with x show False by simp
  qed
  have "size_loop (JInt n) 0 = Inr (JInt n, 0)"
    using False by (subst size_loop.simps) (simp add: ge_1024_def)
  with nz conv k0 show ?thesis
    by (simp add: format_file_size_def eq_zero_def format_spec_1f_def)
qed

lemma round_half_even_nearest:
  "\<bar>of_int (round_half_even z) - z\<bar> \<le> 1 / 2
   \<and> (\<bar>of_int (round_half_even z) - z\<bar> = 1 / 2 \<longrightarrow> even (round_half_even z))"
proof -
  have "of_int \<lfloor>z\<rfloor> \<le> z" and "z < of_int \<lfloor>z\<rfloor> + 1" by linarith+
  then show ?thesis
    unfolding round_half_even_def Let_def by (auto split: if_splits)
qed

lemma digit_range:
  assumes "d < 10"
  shows "d \<in> {0, 1, 2, 3, 4, 5, 6, 7, 8, 9 :: nat}"
  using assms by auto

lemma digit_value_nth: "d < 10 \<Longrightarrow> digit_value (''0123456789'' ! d) = d"
  using digit_range [of d] by (auto simp add: digit_value_def)

lemma digit_nth_member: "d < 10 \<Longrightarrow> ''0123456789'' ! d \<in> set ''0123456789''"
  using digit_range [of d] by auto

lemma digit_nth_nonzero: "0 < d \<Longrightarrow> d < 10 \<Longrightarrow> ''0123456789'' ! d \<noteq> CHR ''0''"
  using digit_range [of d] by auto

lemma decimal_value_snoc:
  "decimal_value (s @ [c]) = 10 * decimal_value s + digit_value c"
  by (simp add: decimal_value_def)

lemma digits_single: "m < 10 \<Longrightarrow> digits m = [''0123456789'' ! m]"
  by (subst digits.simps) (simp del: digits.simps)

lemma digits_more:
  "\<not> m < 10 \<Longrightarrow> digits m = digits (m div 10) @ [''0123456789'' ! (m mod 10)]"
  by (subst digits.simps) (simp del: digits.simps)

lemma decimal_value_digits: "decimal_value (digits m) = m"
proof (induction m rule: digits.induct)
  case (1 m)
  show ?case
  proof (cases "m < 10")
    case True
    then have d: "digits m = [''0123456789'' ! m]" by (rule digits_single)
    from True have "digit_value (''0123456789'' ! m) = m" by (rule digit_value_nth)
    then show ?thesis unfolding d by (simp add: decimal_value_def)
  next
    case False
    then have d: "digits m = digits (m div 10) @ [''0123456789'' ! (m mod 10)]"
      by (rule digits_more)
    from False have IH: "decimal_value (digits (m div 10)) = m div 10" by (rule "1.IH")
    have "m mod 10 < 10" by simp
    then have dv: "digit_value (''0123456789'' ! (m mod 10)) = m mod 10"
      by (rule digit_value_nth)
    show ?thesis unfolding d decimal_value_snoc IH dv by simp
  qed
qed

lemma digits_are_digits: "set (digits m) \<subseteq> set ''0123456789''"
proof (induction m rule: digits.induct)
  case (1 m)
  show ?case
  proof (cases "m < 10")
    case True
    then have d: "digits m = [''0123456789'' ! m]" by (rule digits_single)
    from True have "''0123456789'' ! m \<in> set ''0123456789''" by (rule digit_nth_member)
    then show ?thesis unfolding d by (simp del: digits.simps)
  next
    case False
    then have d: "digits m = digits (m div 10) @ [''0123456789'' ! (m mod 10)]"
      by (rule digits_more)
    from False have IH: "set (digits (m div 10)) \<subseteq> set ''0123456789''" by (rule "1.IH")
    have "m mod 10 < 10" by simp
    then have "''0123456789'' ! (m mod 10) \<in> set ''0123456789''" by (rule digit_nth_member)
    with IH show ?thesis unfolding d by (simp del: digits.simps)
  qed
qed

lemma digits_no_leading_zero: "0 < m \<Longrightarrow> digits m \<noteq> [] \<and> hd (digits m) \<noteq> CHR ''0''"
proof (induction m rule: digits.induct)
  case (1 m)
  show ?case
  proof (cases "m < 10")
    case True
    then have d: "digits m = [''0123456789'' ! m]" by (rule digits_single)
    from "1.prems" True have "''0123456789'' ! m \<noteq> CHR ''0''" by (rule digit_nth_nonzero)
    then show ?thesis unfolding d by (simp del: digits.simps)
  next
    case False
    then have d: "digits m = digits (m div 10) @ [''0123456789'' ! (m mod 10)]"
      by (rule digits_more)
    from False have "0 < m div 10" by simp
    with False have "digits (m div 10) \<noteq> [] \<and> hd (digits (m div 10)) \<noteq> CHR ''0''"
      by (rule "1.IH")
    then show ?thesis unfolding d by (simp del: digits.simps)
  qed
qed

lemma format_1f_eq:
  "format_1f y =
     (if y < 0 then ''-'' else []) @
     digits (nat (round_half_even (\<bar>y\<bar> * 10) div 10)) @
     [CHR ''.'', ''0123456789'' ! nat (round_half_even (\<bar>y\<bar> * 10) mod 10)]"
proof -
  let ?t = "round_half_even (\<bar>y\<bar> * 10)"
  have "nat (?t mod 10) < 10" by simp
  then have d: "digits (nat (?t mod 10)) = [''0123456789'' ! nat (?t mod 10)]"
    by (rule digits_single)
  show ?thesis unfolding format_1f_def Let_def d by (simp del: digits.simps)
qed

lemma bit_length_pow_1024: "bit_length (2 ^ 1024) = 1025"
proof -
  have "(2::nat) ^ 1024 \<le> 2 ^ 1024" by simp
  then have "1024 < bit_length (2 ^ 1024)" by (rule bit_length_gt)
  moreover have "(2::nat) ^ 1024 < 2 ^ 1025" by simp
  then have "bit_length (2 ^ 1024) \<le> 1025" by (rule bit_length_le)
  ultimately show ?thesis by simp
qed

lemma int_to_float_pow_1024:
  "int_to_float (2 ^ 1024) = Inl (OverflowError ''int too large to convert to float'')"
proof -
  have m: "nat \<bar>2 ^ 1024 :: int\<bar> = 2 ^ 1024" by simp
  show ?thesis
    unfolding int_to_float_def Let_def m bit_length_pow_1024 by simp
qed

text \<open>
  Claim C9, as stated, fails in its general part: the function divides as a \<open>float\<close>, and
  a size of \<open>2 ^ 1024\<close> does not convert to one. The first division raises
  \<open>OverflowError\<close> and nothing is rendered.
\<close>

theorem format_file_size_overflow:
  "format_file_size (JInt (2 ^ 1024))
     = Inl (OverflowError ''int too large to convert to float'')"
proof -
  have ge: "ge_1024 (JInt (2 ^ 1024)) = Inr True" by (simp add: ge_1024_def)
  have idx: "0 < length size_names - 1" by (simp add: size_names_def)
  have td: "truediv_1024 (JInt (2 ^ 1024))
              = Inl (OverflowError ''int too large to convert to float'')"
    by (simp only: truediv_1024_def json.case int_to_float_pow_1024 sum.case)
  have loop: "size_loop (JInt (2 ^ 1024)) 0
          = Inl (OverflowError ''int too large to convert to float'')"
    by (subst size_loop.simps) (simp only: ge td idx sum.case simp_thms if_True)
  have nz: "\<not> eq_zero (JInt (2 ^ 1024))" by (simp add: eq_zero_def)
  show ?thesis
    by (simp only: format_file_size_def nz if_False loop sum.case)
qed

lemma format_small:
  assumes "n \<noteq> 0" and "\<bar>n\<bar> < 2 ^ 53"
    and "k \<le> 4" and "k > 0 \<longrightarrow> 1024 ^ k \<le> real_of_int n"
    and "k < 4 \<longrightarrow> real_of_int n < 1024 ^ (k + 1)"
  shows "format_file_size (JInt n) = Inr (format_1f (of_int n / 1024 ^ k) @ '' '' @ size_names ! k)"
  using assms(1) int_to_float_exact [OF assms(2)] assms(3,4,5) by (rule format_file_size_int)

lemma bit_length_55: "bit_length (2 ^ 54 + 2 ^ 38 + 1) = 55"
proof -
  have "(2::nat) ^ 54 \<le> 2 ^ 54 + 2 ^ 38 + 1" by simp
  then have "54 < bit_length (2 ^ 54 + 2 ^ 38 + 1)" by (rule bit_length_gt)
  moreover have "(2::nat) ^ 54 + 2 ^ 38 + 1 < 2 ^ 55" by simp
  then have "bit_length (2 ^ 54 + 2 ^ 38 + 1) \<le> 55" by (rule bit_length_le)
  ultimately show ?thesis by simp
qed

lemma int_to_float_rounds: "int_to_float (2 ^ 54 + 2 ^ 38 + 1) = Inr (2 ^ 54 + 2 ^ 38)"
proof -
  have m: "nat \<bar>2 ^ 54 + 2 ^ 38 + 1 :: int\<bar> = 2 ^ 54 + 2 ^ 38 + 1" by simp
  show ?thesis
    unfolding int_to_float_def Let_def m bit_length_55 by simp
qed

lemma format_file_size_examples:
  "format_file_size (JInt 1572864) = Inr ''1.5 MB''"
  "format_file_size (JInt 5) = Inr ''5.0 B''"
  "format_file_size (JInt 1280) = Inr ''1.2 KB''"
  "format_file_size (JInt 1073741824) = Inr ''1.0 GB''"
proof -
  show "format_file_size (JInt 1572864) = Inr ''1.5 MB''"
    by (subst format_small [where k = 2])
       (simp_all add: size_names_def format_1f_def round_half_even_def)
  show "format_file_size (JInt 5) = Inr ''5.0 B''"
    by (subst format_small [where k = 0])
       (simp_all add: size_names_def format_1f_def round_half_even_def)
  show "format_file_size (JInt 1280) = Inr ''1.2 KB''"
    by (subst format_small [where k = 1])
       (simp_all add: size_names_def format_1f_def round_half_even_def)
  show "format_file_size (JInt 1073741824) = Inr ''1.0 GB''"
    by (subst format_small [where k = 3])
       (simp_all add: size_names_def format_1f_def round_half_even_def)
qed

lemma example_rounded:
  "format_file_size (JInt (2 ^ 54 + 2 ^ 38 + 1)) = Inr ''16384.2 TB''"
proof -
  have "format_file_size (JInt (2 ^ 54 + 2 ^ 38 + 1))
          = Inr (format_1f ((2 ^ 54 + 2 ^ 38) / 1024 ^ 4) @ '' '' @ size_names ! 4)"
    by (rule format_file_size_int [OF _ int_to_float_rounds]) simp_all
  then show ?thesis
    by (simp add: size_names_def format_1f_def round_half_even_def)
qed

lemma int_to_float_near:
  assumes "int_to_float n = Inr x"
  shows "2 * \<bar>x - of_int n\<bar> \<le> 2 ^ (bit_length (nat \<bar>n\<bar>) - 53)"
proof -
  let ?m = "nat \<bar>n\<bar>"
  let ?e = "bit_length ?m - 53"
  obtain v where eq: "int_to_float n =
       (if v \<ge> 2 ^ 1024 then Inl (OverflowError ''int too large to convert to float'')
        else Inr (if n < 0 then - real v else real v))"
    and near: "2 * \<bar>int v - int ?m\<bar> \<le> 2 ^ ?e"
    by (rule int_to_float_rounded [of n])
  from eq assms have x: "x = (if n < 0 then - real v else real v)"
    by (simp split: if_splits)
  have "\<bar>x - of_int n\<bar> = \<bar>real v - real ?m\<bar>"
  proof (cases "n < 0")
    case True
    then have "real_of_int n = - real ?m" by simp
    with True x show ?thesis by (simp add: abs_minus_commute)
  next
    case False
    then have "real_of_int n = real ?m" by simp
    with False x show ?thesis by simp
  qed
  also have "\<dots> = real_of_int \<bar>int v - int ?m\<bar>" by simp
  finally have "2 * \<bar>x - of_int n\<bar> = real_of_int (2 * \<bar>int v - int ?m\<bar>)" by simp
  also from near have "\<dots> \<le> real_of_int (2 ^ ?e)" by (simp only: of_int_le_iff)
  finally show ?thesis by simp
qed

text \<open>
  Claim C9, amended. \<open>format_file_size\<close> maps 1572864 to \<open>1.5 MB\<close> and 0 to \<open>0 B\<close>
  (and 5 to \<open>5.0 B\<close>, 1280 to \<open>1.2 KB\<close>, \<open>2 ^ 30\<close> to \<open>1.0 GB\<close>). For an integer
  size other than 0 that converts to a \<open>float\<close> \<open>x\<close>, it divides by 1024 as long as the
  value is at least 1024 and a larger unit remains: the unit is the \<open>k\<close>-th of B, KB,
  MB, GB, TB, where \<open>k\<close> is 4 when \<open>x\<close> is at least \<open>1024 ^ 4\<close> and otherwise the number
  with \<open>1024 ^ k \<le> x < 1024 ^ (k + 1)\<close> (0 when \<open>x\<close> is below 1024), and the result is
  the quotient printed with one digit after the decimal point, a space and the unit.

  The conversion succeeds for every size of magnitude below \<open>2 ^ 1023\<close>; it is exact
  below \<open>2 ^ 53\<close> and otherwise off by at most half a unit of the 53rd leading bit (so
  that \<open>2 ^ 54 + 2 ^ 38 + 1\<close> prints as \<open>16384.2 TB\<close>). The printed number is the
  integer part of the rounded tenths in decimal digits, a point, and the last digit of
  the rounded tenths, where rounding is to the nearest integer and a tie goes to the even
  one; the decimal digits of a number read back as that number, with no leading zero.
\<close>

theorem format_file_size_spec:
  "format_file_size (JInt 1572864) = Inr ''1.5 MB''
   \<and> format_file_size (JInt 0) = Inr ''0 B''
   \<and> format_file_size (JInt 5) = Inr ''5.0 B''
   \<and> format_file_size (JInt 1280) = Inr ''1.2 KB''
   \<and> format_file_size (JInt 1073741824) = Inr ''1.0 GB''
   \<and> format_file_size (JInt (2 ^ 54 + 2 ^ 38 + 1)) = Inr ''16384.2 TB''
   \<and> (\<forall>n x k. n \<noteq> 0 \<and> int_to_float n = Inr x \<and> k \<le> 4
          \<and> (k > 0 \<longrightarrow> 1024 ^ k \<le> x) \<and> (k < 4 \<longrightarrow> x < 1024 ^ (k + 1))
        \<longrightarrow> format_file_size (JInt n)
              = Inr (format_1f (x / 1024 ^ k) @ '' '' @ [''B'', ''KB'', ''MB'', ''GB'', ''TB''] ! k))
   \<and> (\<forall>n. \<bar>n\<bar> < 2 ^ 53 \<longrightarrow> int_to_float n = Inr (of_int n))
   \<and> (\<forall>n. \<bar>n\<bar> < 2 ^ 1023 \<longrightarrow> (\<exists>x. int_to_float n = Inr x))
   \<and> (\<forall>n x. int_to_float n = Inr x
        \<longrightarrow> 2 * \<bar>x - of_int n\<bar> \<le> 2 ^ (bit_length (nat \<bar>n\<bar>) - 53))
   \<and> (\<forall>y. format_1f y =
          (if y < 0 then ''-'' else []) @
          digits (nat (round_half_even (\<bar>y\<bar> * 10) div 10)) @
          [CHR ''.'', ''0123456789'' ! nat (round_half_even (\<bar>y\<bar> * 10) mod 10)])
   \<and> (\<forall>z. \<bar>of_int (round_half_even z) - z\<bar> \<le> 1 / 2
          \<and> (\<bar>of_int (round_half_even z) - z\<bar> = 1 / 2 \<longrightarrow> even (round_half_even z)))
   \<and> (\<forall>m. decimal_value (digits m) = m
          \<and> set (digits m) \<subseteq> set ''0123456789''
          \<and> (0 < m \<longrightarrow> hd (digits m) \<noteq> CHR ''0''))"
proof (intro conjI allI)
  show "format_file_size (JInt 1572864) = Inr ''1.5 MB''" by (rule format_file_size_examples)
  show "format_file_size (JInt 0) = Inr ''0 B''" by (simp add: format_file_size_def eq_zero_def)
  show "format_file_size (JInt 5) = Inr ''5.0 B''" by (rule format_file_size_examples)
  show "format_file_size (JInt 1280) = Inr ''1.2 KB''" by (rule format_file_size_examples)
  show "format_file_size (JInt 1073741824) = Inr ''1.0 GB''" by (rule format_file_size_examples)
  show "format_file_size (JInt (2 ^ 54 + 2 ^ 38 + 1)) = Inr ''16384.2 TB''"
    by (rule example_rounded)
next
  fix n :: int and x :: real and k :: nat
  show "n \<noteq> 0 \<and> int_to_float n = Inr x \<and> k \<le> 4
          \<and> (k > 0 \<longrightarrow> 1024 ^ k \<le> x) \<and> (k < 4 \<longrightarrow> x < 1024 ^ (k + 1))
        \<longrightarrow> format_file_size (JInt n)
              = Inr (format_1f (x / 1024 ^ k) @ '' '' @ [''B'', ''KB'', ''MB'', ''GB'', ''TB''] ! k)"
  proof
    assume h: "n \<noteq> 0 \<and> int_to_float n = Inr x \<and> k \<le> 4
          \<and> (k > 0 \<longrightarrow> 1024 ^ k \<le> x) \<and> (k < 4 \<longrightarrow> x < 1024 ^ (k + 1))"
    then have "format_file_size (JInt n)
                 = Inr (format_1f (x / 1024 ^ k) @ '' '' @ size_names ! k)"
      by (intro format_file_size_int) simp_all
    then show "format_file_size (JInt n)
              = Inr (format_1f (x / 1024 ^ k) @ '' '' @ [''B'', ''KB'', ''MB'', ''GB'', ''TB''] ! k)"
      by (simp only: size_names_def)
  qed
next
  fix n :: int
  show "\<bar>n\<bar> < 2 ^ 53 \<longrightarrow> int_to_float n = Inr (of_int n)"
    using int_to_float_exact by blast
  show "\<bar>n\<bar> < 2 ^ 1023 \<longrightarrow> (\<exists>x. int_to_float n = Inr x)"
    using int_to_float_defined by blast
next
  fix n :: int and x :: real
  show "int_to_float n = Inr x \<longrightarrow> 2 * \<bar>x - of_int n\<bar> \<le> 2 ^ (bit_length (nat \<bar>n\<bar>) - 53)"
    using int_to_float_near by blast
next
  fix y :: real
  show "format_1f y =
          (if y < 0 then ''-'' else []) @
          digits (nat (round_half_even (\<bar>y\<bar> * 10) div 10)) @
          [CHR ''.'', ''0123456789'' ! nat (round_half_even (\<bar>y\<bar> * 10) mod 10)]"
    by (rule format_1f_eq)
next
  fix z :: real
  show "\<bar>of_int (round_half_even z) - z\<bar> \<le> 1 / 2"
    and "\<bar>of_int (round_half_even z) - z\<bar> = 1 / 2 \<longrightarrow> even (round_half_even z)"
    using round_half_even_nearest [of z] by blast+
next
  fix m :: nat
  show "decimal_value (digits m) = m" by (rule decimal_value_digits)
  show "set (digits m) \<subseteq> set ''0123456789''" by (rule digits_are_digits)
  show "0 < m \<longrightarrow> hd (digits m) \<noteq> CHR ''0''" using digits_no_leading_zero by blast
qed

theorem format_file_size_spec_witness:
  "(1536::int) \<noteq> 0 \<and> int_to_float 1536 = Inr 1536 \<and> (1::nat) \<le> 4
   \<and> (1024::real) ^ 1 \<le> 1536 \<and> (1536::real) < 1024 ^ (1 + 1)
   \<and> format_file_size (JInt 1536) = Inr ''1.5 KB''"
proof -
  have bl: "bit_length 1536 = 11" by (simp add: bit_length.simps)
  have m: "nat \<bar>1536 :: int\<bar> = 1536" by simp
  have conv: "int_to_float 1536 = Inr 1536"
    unfolding int_to_float_def Let_def m bl by simp
  have "(1536::int) \<noteq> 0 \<and> int_to_float 1536 = Inr 1536 \<and> (1::nat) \<le> 4
          \<and> ((1::nat) > 0 \<longrightarrow> 1024 ^ 1 \<le> (1536::real))
          \<and> ((1::nat) < 4 \<longrightarrow> (1536::real) < 1024 ^ (1 + 1))"
    using conv by simp
  then have "format_file_size (JInt 1536)
         = Inr (format_1f (1536 / 1024 ^ 1) @ '' '' @ [''B'', ''KB'', ''MB'', ''GB'', ''TB''] ! 1)"
    by (rule format_file_size_spec
          [THEN conjunct2, THEN conjunct2, THEN conjunct2, THEN conjunct2, THEN conjunct2,
           THEN conjunct2, THEN conjunct1, rule_format])
  then have "format_file_size (JInt 1536) = Inr ''1.5 KB''"
    by (simp add: format_1f_def round_half_even_def)
  with conv show ?thesis by simp
qed

section \<open>Properties of the views\<close>

lemma str_contains_iff: "str_contains d s \<longleftrightarrow> (\<exists>pre suf. s = pre @ d @ suf)"
proof (induction s)
  case Nil
  then show ?case by auto
next
  case (Cons c cs)
  show ?case
  proof
    assume "str_contains d (c # cs)"
    then consider "prefix d (c # cs)" | "str_contains d cs" by auto
    then show "\<exists>pre suf. c # cs = pre @ d @ suf"
    proof cases
      case 1
      then obtain suf where "c # cs = d @ suf" by (auto simp: prefix_def)
      then have "c # cs = [] @ d @ suf" by simp
      then show ?thesis by blast
    next
      case 2
      with Cons.IH obtain pre suf where "cs = pre @ d @ suf" by blast
      then have "c # cs = (c # pre) @ d @ suf" by simp
      then show ?thesis by blast
    qed
  next
    assume "\<exists>pre suf. c # cs = pre @ d @ suf"
    then obtain pre suf where eq: "c # cs = pre @ d @ suf" by blast
    show "str_contains d (c # cs)"
    proof (cases pre)
      case Nil
      with eq have "prefix d (c # cs)" by (simp add: prefix_def)
      then show ?thesis by simp
    next
      case (Cons p pre')
      with eq have "cs = pre' @ d @ suf" by simp
      with Cons.IH have "str_contains d cs" by blast
      then show ?thesis by simp
    qed
  qed
qed

lemma validate_model_name_dangerous:
  assumes "d \<in> set dangerous_chars" and "name = pre @ d @ suf"
  shows "\<not> validate_model_name (JStr name)"
proof -
  from assms(2) have "str_contains d name" by (auto simp: str_contains_iff)
  with assms(1) have "list_ex (\<lambda>char. str_contains char name) dangerous_chars"
    unfolding list_ex_iff by blast
  then show ?thesis by (simp add: validate_model_name_def)
qed

lemma validate_model_name_not_str:
  "\<not> isinstance_str v \<Longrightarrow> \<not> validate_model_name v"
  by (simp add: validate_model_name_def)

lemma strip_blank:
  assumes "\<forall>c\<in>set s. is_space c"
  shows "strip s = []"
proof -
  from assms have blank: "dropWhile is_space s = []" by (induction s) simp_all
  show ?thesis unfolding strip_def blank by simp
qed

lemma validate_model_name_blank:
  "\<forall>c\<in>set s. is_space c \<Longrightarrow> \<not> validate_model_name (JStr s)"
  by (simp add: validate_model_name_def strip_blank)

lemma payload_accepted_pass:
  "payload_accepted required_fields req \<Longrightarrow>
     validate_json_payload required_fields func req =
       (case func req of (r, calls) \<Rightarrow> (Inr r, calls))"
  by (simp add: payload_accepted_def validate_json_payload_def)

lemma payload_accepted_dict:
  assumes "is_json req" and "get_json req = JObj data"
    and "\<forall>field\<in>set required_fields. map_of data field \<noteq> None"
    and "required_fields \<noteq> []"
  shows "payload_accepted required_fields req"
proof -
  from assms(3,4) have "data \<noteq> []" by (cases required_fields) auto
  moreover from assms(3) have "filter (\<lambda>field. map_of data field = None) required_fields = []"
    by (simp add: filter_empty_conv)
  ultimately show ?thesis
    using assms(1,2) by (simp add: payload_accepted_def missing_fields_def)
qed

lemma invalid_model_generate:
  assumes "is_json req" and "get_json req = JObj data"
    and "map_of data ''model'' = Some model" and "\<not> validate_model_name model"
    and "map_of data ''prompt'' \<noteq> None"
  shows "generate_response cfg env ts req = rejected_model_name ts"
proof -
  have "payload_accepted [''model'', ''prompt''] req"
    using assms by (intro payload_accepted_dict [where data = data]) simp_all
  moreover have "generate_response_inner cfg env ts req =
      ((create_error_response ts ''Nome del modello non valido'' ''INVALID_MODEL_NAME'', 400), [])"
    using assms(2,3,4)
    by (simp add: generate_response_inner_def generate_response_try_def dict_get_def)
  ultimately show ?thesis
    by (simp add: generate_response_def log_request_info_def payload_accepted_pass
          rejected_model_name_def)
qed

lemma invalid_model_chat:
  assumes "is_json req" and "get_json req = JObj data"
    and "map_of data ''model'' = Some model" and "\<not> validate_model_name model"
    and "map_of data ''messages'' \<noteq> None"
  shows "chat cfg env ts req = rejected_model_name ts"
proof -
  have "payload_accepted [''model'', ''messages''] req"
    using assms by (intro payload_accepted_dict [where data = data]) simp_all
  moreover have "chat_inner cfg env ts req =
      ((create_error_response ts ''Nome del modello non valido'' ''INVALID_MODEL_NAME'', 400), [])"
    using assms(2,3,4)
    by (simp add: chat_inner_def chat_try_def dict_get_def)
  ultimately show ?thesis
    by (simp add: chat_def log_request_info_def payload_accepted_pass rejected_model_name_def)
qed

lemma invalid_model_stop:
  assumes "is_json req" and "get_json req = JObj data"
    and "map_of data ''model'' = Some model" and "\<not> validate_model_name model"
  shows "stop_model env ts req = rejected_model_name ts"
proof -
  have "payload_accepted [''model''] req"
    using assms by (intro payload_accepted_dict [where data = data]) simp_all
  moreover have "stop_model_inner env ts req =
      ((create_error_response ts ''Nome del modello non valido'' ''INVALID_MODEL_NAME'', 400), [])"
    using assms(2,3,4)
    by (simp add: stop_model_inner_def dict_get_def)
  ultimately show ?thesis
    by (simp add: stop_model_def log_request_info_def payload_accepted_pass rejected_model_name_def)
qed

lemma invalid_model_pull:
  assumes "is_json req" and "get_json req = JObj data"
    and "map_of data ''model'' = Some model" and "\<not> validate_model_name model"
  shows "pull_model cfg env ts req = rejected_model_name ts"
proof -
  have "payload_accepted [''model''] req"
    using assms by (intro payload_accepted_dict [where data = data]) simp_all
  moreover have "pull_model_inner cfg env ts req =
      ((create_error_response ts ''Nome del modello non valido'' ''INVALID_MODEL_NAME'', 400), [])"
    using assms(2,3,4)
    by (simp add: pull_model_inner_def dict_get_def)
  ultimately show ?thesis
    by (simp add: pull_model_def log_request_info_def payload_accepted_pass rejected_model_name_def)
qed

text \<open>
  Claim C5, as stated, fails: payload validation runs before the view. A request to
  \<open>/generate\<close> whose body holds a model name with a slash and no \<open>prompt\<close> is answered
  with HTTP 400 and the list of missing fields, without the code \<open>INVALID_MODEL_NAME\<close>.
\<close>

theorem missing_prompt_hides_model_check:
  "generate_response default_config example_environment 101
     (example_request\<lparr>path := ''/generate'', is_json := True,
                      get_json := JObj [(''model'', JStr ''a/b'')]\<rparr>)
   = (Inr (JObj [(''error'', JStr ''Campi mancanti: prompt'')], 400), [])"
  by (simp add: generate_response_def log_request_info_def validate_json_payload_def
        example_request_def missing_fields_def)

text \<open>
  Claim C5, amended. For a JSON request whose body is an object that holds every field
  the endpoint requires, and whose \<open>model\<close> is a string containing one of \<open>/\<close>,
  the backslash, \<open>..\<close>, \<open><\<close>, \<open>>\<close>, \<open>|\<close>, \<open>&\<close> or \<open>;\<close>: each of generate, chat,
  stop and pull answers HTTP 400 with the Error envelope of code \<open>INVALID_MODEL_NAME\<close>,
  and makes no call to the Model Engine or to a subprocess. (generate requires \<open>model\<close>
  and \<open>prompt\<close>, chat \<open>model\<close> and \<open>messages\<close>, stop and pull \<open>model\<close>.)
\<close>

theorem dangerous_model_name_rejected:
  assumes "is_json req" and "get_json req = JObj data"
    and "map_of data ''model'' = Some (JStr name)"
    and "d \<in> {''/'', [CHR 0x5C], ''..'', ''<'', ''>'', ''|'', ''&'', '';''}"
    and "name = pre @ d @ suf"
  shows "(map_of data ''prompt'' \<noteq> None \<longrightarrow>
            generate_response cfg env ts req = rejected_model_name ts)
       \<and> (map_of data ''messages'' \<noteq> None \<longrightarrow>
            chat cfg env ts req = rejected_model_name ts)
       \<and> stop_model env ts req = rejected_model_name ts
       \<and> pull_model cfg env ts req = rejected_model_name ts"
proof -
  from assms(4) have "d \<in> set dangerous_chars" by (simp add: dangerous_chars_def)
  then have bad: "\<not> validate_model_name (JStr name)"
    using assms(5) by (rule validate_model_name_dangerous)
  show ?thesis
    using invalid_model_generate [OF assms(1,2,3) bad]
      invalid_model_chat [OF assms(1,2,3) bad]
      invalid_model_stop [OF assms(1,2,3) bad]
      invalid_model_pull [OF assms(1,2,3) bad]
    by blast
qed

theorem dangerous_model_name_rejected_witness:
  "stop_model example_environment 101
     (example_request\<lparr>path := ''/stop'', is_json := True,
                      get_json := JObj [(''model'', JStr ''llama2;reboot'')]\<rparr>)
   = (Inr (create_error_response 101 ''Nome del modello non valido'' ''INVALID_MODEL_NAME'', 400),
      [])"
proof -
  let ?req = "example_request\<lparr>path := ''/stop'', is_json := True,
                      get_json := JObj [(''model'', JStr ''llama2;reboot'')]\<rparr>"
  have h1: "is_json ?req" by simp
  have h2: "get_json ?req = JObj [(''model'', JStr ''llama2;reboot'')]" by simp
  have h3: "map_of [(''model'', JStr ''llama2;reboot'')] ''model'' = Some (JStr ''llama2;reboot'')"
    by simp
  have h4: "'';'' \<in> {''/'', [CHR 0x5C], ''..'', ''<'', ''>'', ''|'', ''&'', '';''}" by simp
  have h5: "''llama2;reboot'' = ''llama2'' @ '';'' @ ''reboot''" by simp
  have "stop_model example_environment 101 ?req = rejected_model_name 101"
    by (rule dangerous_model_name_rejected
          [OF h1 h2 h3 h4 h5, THEN conjunct2, THEN conjunct2, THEN conjunct1])
  then show ?thesis by (simp only: rejected_model_name_def)
qed

text \<open>
  Claim C8, as stated, fails: the model name is checked before the messages. A request
  to \<open>/chat\<close> with both required fields, an empty list of messages and an invalid model
  name is answered with the code \<open>INVALID_MODEL_NAME\<close>.
\<close>

theorem model_check_precedes_messages_check:
  "chat default_config example_environment 101
     (example_request\<lparr>path := ''/chat'', is_json := True,
                      get_json := JObj [(''model'', JStr ''../x''), (''messages'', JList [])]\<rparr>)
   = (Inr (create_error_response 101 ''Nome del modello non valido'' ''INVALID_MODEL_NAME'', 400),
      [])"
  by (simp add: chat_def log_request_info_def validate_json_payload_def example_request_def
        missing_fields_def chat_inner_def chat_try_def dict_get_def validate_model_name_def
        isinstance_str_def strip_def is_space_def dangerous_chars_def)

text \<open>
  Claim C8, amended. For a JSON request to chat whose body is an object that holds
  \<open>model\<close> and \<open>messages\<close>, whose model name is valid and whose \<open>messages\<close> is not a
  non-empty list: the answer is HTTP 400 with the Error envelope of code
  \<open>INVALID_MESSAGES_FORMAT\<close>, and the chat operation of the Model Engine is not called.
\<close>

theorem invalid_messages_rejected:
  assumes "is_json req" and "get_json req = JObj data"
    and "map_of data ''model'' = Some model" and "validate_model_name model"
    and "map_of data ''messages'' = Some messages"
    and "\<not> (\<exists>ms. messages = JList ms \<and> ms \<noteq> [])"
  shows "chat cfg env ts req =
           (Inr (create_error_response ts ''I messaggi devono essere una lista non vuota''
                   ''INVALID_MESSAGES_FORMAT'', 400), [])"
proof -
  have "payload_accepted [''model'', ''messages''] req"
    using assms by (intro payload_accepted_dict [where data = data]) simp_all
  moreover from assms(6) have "(case messages of JList ms \<Rightarrow> ms = [] | _ \<Rightarrow> True)"
    by (cases messages) simp_all
  then have "chat_inner cfg env ts req =
      ((create_error_response ts ''I messaggi devono essere una lista non vuota''
          ''INVALID_MESSAGES_FORMAT'', 400), [])"
    using assms(2,3,4,5) by (simp add: chat_inner_def chat_try_def dict_get_def)
  ultimately show ?thesis
    by (simp add: chat_def log_request_info_def payload_accepted_pass)
qed

theorem invalid_messages_rejected_witness:
  "chat default_config example_environment 101
     (example_request\<lparr>path := ''/chat'', is_json := True,
                      get_json := JObj [(''model'', JStr ''llama2''), (''messages'', JList [])]\<rparr>)
   = (Inr (create_error_response 101 ''I messaggi devono essere una lista non vuota''
             ''INVALID_MESSAGES_FORMAT'', 400), [])"
  using invalid_messages_rejected [of
      "example_request\<lparr>path := ''/chat'', is_json := True,
                       get_json := JObj [(''model'', JStr ''llama2''), (''messages'', JList [])]\<rparr>"
      "[(''model'', JStr ''llama2''), (''messages'', JList [])]" "JStr ''llama2''" "JList []"
      default_config example_environment 101]
  by (simp add: example_request_def validate_model_name_def isinstance_str_def strip_def
        is_space_def dangerous_chars_def)

text \<open>
  Claim C10, as stated, fails in its second part: a request to \<open>/chat\<close> whose \<open>model\<close>
  is present and is a number, and which has no \<open>messages\<close>, is answered with HTTP 400
  and the list of missing fields, without the code \<open>INVALID_MODEL_NAME\<close>.
\<close>

theorem missing_messages_hides_model_check:
  "chat default_config example_environment 101
     (example_request\<lparr>path := ''/chat'', is_json := True,
                      get_json := JObj [(''model'', JInt 7)]\<rparr>)
   = (Inr (JObj [(''error'', JStr ''Campi mancanti: messages'')], 400), [])"
  by (simp add: chat_def log_request_info_def validate_json_payload_def example_request_def
        missing_fields_def)

text \<open>
  Claim C10, amended. \<open>validate_model_name\<close> returns \<open>False\<close>, and raises nothing, on
  every value that is not a string and on every string that is empty or made of
  whitespace only. Hence, for a JSON request whose body is an object that holds every
  field the endpoint requires, and whose \<open>model\<close> is such a value, each of generate,
  chat, stop and pull returns the response with HTTP 400 and code \<open>INVALID_MODEL_NAME\<close>;
  no exception escapes the view and no call is made.
\<close>

theorem malformed_model_name_rejected:
  "(\<forall>v. \<not> isinstance_str v \<longrightarrow> \<not> validate_model_name v)
   \<and> (\<forall>s. (\<forall>c\<in>set s. is_space c) \<longrightarrow> \<not> validate_model_name (JStr s))
   \<and> (\<forall>(req::request) data model.
         is_json req \<and> get_json req = JObj data \<and> map_of data ''model'' = Some model
         \<and> (\<not> isinstance_str model \<or> (\<exists>s. model = JStr s \<and> (\<forall>c\<in>set s. is_space c)))
         \<longrightarrow> (map_of data ''prompt'' \<noteq> None \<longrightarrow>
                generate_response cfg env ts req = rejected_model_name ts)
           \<and> (map_of data ''messages'' \<noteq> None \<longrightarrow>
                chat cfg env ts req = rejected_model_name ts)
           \<and> stop_model env ts req = rejected_model_name ts
           \<and> pull_model cfg env ts req = rejected_model_name ts)"
proof (intro conjI allI impI)
  fix v assume "\<not> isinstance_str v"
  then show "\<not> validate_model_name v" by (rule validate_model_name_not_str)
next
  fix s assume "\<forall>c\<in>set s. is_space c"
  then show "\<not> validate_model_name (JStr s)" by (rule validate_model_name_blank)
next
  fix req :: request and data model
  assume h: "is_json req \<and> get_json req = JObj data \<and> map_of data ''model'' = Some model
         \<and> (\<not> isinstance_str model \<or> (\<exists>s. model = JStr s \<and> (\<forall>c\<in>set s. is_space c)))"
  then have bad: "\<not> validate_model_name model"
    using validate_model_name_not_str validate_model_name_blank by blast
  from h have j: "is_json req" and b: "get_json req = JObj data"
    and m: "map_of data ''model'' = Some model" by simp_all
  show "stop_model env ts req = rejected_model_name ts"
    by (rule invalid_model_stop [OF j b m bad])
  show "pull_model cfg env ts req = rejected_model_name ts"
    by (rule invalid_model_pull [OF j b m bad])
  {
    assume "map_of data ''prompt'' \<noteq> None"
    then show "generate_response cfg env ts req = rejected_model_name ts"
      by (rule invalid_model_generate [OF j b m bad])
  }
  {
    assume "map_of data ''messages'' \<noteq> None"
    then show "chat cfg env ts req = rejected_model_name ts"
      by (rule invalid_model_chat [OF j b m bad])
  }
qed

theorem malformed_model_name_rejected_witness:
  "\<not> validate_model_name JNull
   \<and> \<not> validate_model_name (JStr ''   '')
   \<and> pull_model default_config example_environment 101
       (example_request\<lparr>path := ''/pull'', is_json := True,
                        get_json := JObj [(''model'', JList [JStr ''llama2''])]\<rparr>)
     = (Inr (create_error_response 101 ''Nome del modello non valido'' ''INVALID_MODEL_NAME'', 400),
        [])"
proof -
  note t = malformed_model_name_rejected [of default_config example_environment 101]
  from t have "\<not> isinstance_str JNull \<longrightarrow> \<not> validate_model_name JNull" by blast
  then have a: "\<not> validate_model_name JNull" by (simp add: isinstance_str_def)
  from t have "(\<forall>c\<in>set ''   ''. is_space c) \<longrightarrow> \<not> validate_model_name (JStr ''   '')" by blast
  then have b: "\<not> validate_model_name (JStr ''   '')" by (simp add: is_space_def)
  let ?req = "example_request\<lparr>path := ''/pull'', is_json := True,
                        get_json := JObj [(''model'', JList [JStr ''llama2''])]\<rparr>"
  from t have "is_json ?req \<and> get_json ?req = JObj [(''model'', JList [JStr ''llama2''])]
       \<and> map_of [(''model'', JList [JStr ''llama2''])] ''model'' = Some (JList [JStr ''llama2''])
       \<and> (\<not> isinstance_str (JList [JStr ''llama2''])
           \<or> (\<exists>s. JList [JStr ''llama2''] = JStr s \<and> (\<forall>c\<in>set s. is_space c)))
       \<longrightarrow> pull_model default_config example_environment 101 ?req = rejected_model_name 101"
    by blast
  then have c: "pull_model default_config example_environment 101 ?req = rejected_model_name 101"
    by (simp add: isinstance_str_def)
  from a b c show ?thesis by (simp add: rejected_model_name_def)
qed

section \<open>Properties of the response shapes\<close>

lemma success_response_shape:
  "is_success_envelope (create_success_response ts d m)
   \<and> \<not> is_error_envelope (create_success_response ts d m)"
  by (simp add: is_success_envelope_def is_error_envelope_def create_success_response_def)

lemma error_response_shape:
  "is_error_envelope (create_error_response ts e c)
   \<and> \<not> is_success_envelope (create_error_response ts e c)"
  by (simp add: is_success_envelope_def is_error_envelope_def create_error_response_def)

lemma is_envelope_success [simp]: "is_envelope (create_success_response ts d m)"
  using success_response_shape [of ts d m] by (simp add: is_envelope_def)

lemma is_envelope_error [simp]: "is_envelope (create_error_response ts e c)"
  using error_response_shape [of ts e c] by (simp add: is_envelope_def)

lemma generate_response_try_envelope:
  "generate_response_try cfg env ts req = (Inr r, calls) \<Longrightarrow> is_envelope (fst r)"
  by (auto simp add: generate_response_try_def Let_def
        split: json.splits if_splits sum.splits engine_result.splits option.splits)

lemma generate_response_except_envelope: "is_envelope (fst (generate_response_except ts e))"
  by (cases e) (simp_all add: generate_response_except_def)

lemma generate_response_inner_envelope:
  "is_envelope (fst (fst (generate_response_inner cfg env ts req)))"
proof (cases "generate_response_try cfg env ts req")
  case (Pair x calls)
  show ?thesis
  proof (cases x)
    case (Inl e)
    with Pair show ?thesis
      by (simp add: generate_response_inner_def generate_response_except_envelope)
  next
    case (Inr r)
    with Pair have "is_envelope (fst r)" by (intro generate_response_try_envelope) simp
    with Pair Inr show ?thesis by (simp add: generate_response_inner_def)
  qed
qed

lemma chat_try_envelope:
  "chat_try cfg env ts req = (Inr r, calls) \<Longrightarrow> is_envelope (fst r)"
  by (auto simp add: chat_try_def Let_def
        split: json.splits if_splits sum.splits engine_result.splits option.splits)

lemma chat_except_envelope: "is_envelope (fst (chat_except ts e))"
  by (cases e) (simp_all add: chat_except_def)

lemma chat_inner_envelope: "is_envelope (fst (fst (chat_inner cfg env ts req)))"
proof (cases "chat_try cfg env ts req")
  case (Pair x calls)
  show ?thesis
  proof (cases x)
    case (Inl e)
    with Pair show ?thesis by (simp add: chat_inner_def chat_except_envelope)
  next
    case (Inr r)
    with Pair have "is_envelope (fst r)" by (intro chat_try_envelope) simp
    with Pair Inr show ?thesis by (simp add: chat_inner_def)
  qed
qed

lemma stop_model_except_envelope: "is_envelope (fst (stop_model_except ts model e))"
  by (cases e) (simp_all add: stop_model_except_def)

lemma stop_model_inner_envelope: "is_envelope (fst (fst (stop_model_inner env ts req)))"
  by (auto simp add: stop_model_inner_def Let_def stop_model_except_envelope
        split: json.splits sum.splits)

lemma pull_model_except_envelope: "is_envelope (fst (pull_model_except ts model e))"
  by (cases e) (simp_all add: pull_model_except_def)

lemma pull_model_inner_envelope: "is_envelope (fst (fst (pull_model_inner cfg env ts req)))"
  by (auto simp add: pull_model_inner_def Let_def pull_model_except_envelope
        split: json.splits sum.splits)

lemma list_models_envelope: "is_envelope (fst (fst (list_models env ts)))"
  by (auto simp add: list_models_def list_models_try_def log_request_info_def
        split: sum.splits)

lemma process_status_envelope: "is_envelope (fst (fst (process_status env ts)))"
  by (auto simp add: process_status_def log_request_info_def Let_def
        split: sum.splits exn.splits)

lemma middleware_envelope:
  "fst (security_middleware cfg current_time ts st req) = Some r \<Longrightarrow>
     is_error_envelope (fst r) \<and> \<not> is_success_envelope (fst r)"
  by (auto simp add: security_middleware_def allowed_ips_check_def api_key_check_def Let_def
        error_response_shape split: if_splits option.splits)

lemma health_check_shape:
  "\<not> is_success_envelope (fst (health_check cfg env))
   \<and> \<not> is_error_envelope (fst (health_check cfg env))
   \<and> snd (health_check cfg env) = 200
   \<and> (\<exists>d. fst (health_check cfg env) = JObj d \<and> map_of d ''status'' = Some (JStr ''ok''))"
  by (simp add: health_check_def log_request_info_def Let_def is_success_envelope_def
        is_error_envelope_def)

lemma decorated_envelope:
  assumes "payload_accepted required_fields req"
    and "is_envelope (fst (fst (func req)))"
  shows "\<exists>r calls. validate_json_payload required_fields func req = (Inr r, calls)
                   \<and> is_envelope (fst r)"
proof (cases "func req")
  case (Pair r calls)
  with assms(1) have "validate_json_payload required_fields func req = (Inr r, calls)"
    by (simp add: payload_accepted_pass)
  moreover from Pair assms(2) have "is_envelope (fst r)" by simp
  ultimately show ?thesis by blast
qed

text \<open>
  Claim C6, as stated, fails: the response of \<open>/health\<close> is not a Success envelope, and
  the 400 response of payload validation for a missing field is not an Error envelope (it
  holds the single field \<open>error\<close>).
\<close>

theorem health_and_payload_errors_not_envelopes:
  "\<not> is_success_envelope (fst (health_check default_config example_environment))
   \<and> generate_response default_config example_environment 101
       (example_request\<lparr>path := ''/generate'', is_json := True,
                        get_json := JObj [(''model'', JStr ''llama2'')]\<rparr>)
     = (Inr (JObj [(''error'', JStr ''Campi mancanti: prompt'')], 400), [])
   \<and> \<not> is_error_envelope (JObj [(''error'', JStr ''Campi mancanti: prompt'')])"
proof (intro conjI)
  show "\<not> is_success_envelope (fst (health_check default_config example_environment))"
    by (simp add: health_check_def log_request_info_def Let_def is_success_envelope_def)
  show "generate_response default_config example_environment 101
       (example_request\<lparr>path := ''/generate'', is_json := True,
                        get_json := JObj [(''model'', JStr ''llama2'')]\<rparr>)
     = (Inr (JObj [(''error'', JStr ''Campi mancanti: prompt'')], 400), [])"
    by (simp add: generate_response_def log_request_info_def validate_json_payload_def
          example_request_def missing_fields_def)
  show "\<not> is_error_envelope (JObj [(''error'', JStr ''Campi mancanti: prompt'')])"
    by (simp add: is_error_envelope_def)
qed

text \<open>
  Claim C6, amended. The response with which the middleware denies a request, the
  response of generate, chat, stop and pull to a request that payload validation has
  accepted, the response of list and of ps, and the responses of the 404, 405 and 500
  handlers are each exactly one of the two envelope shapes: a Success envelope with the
  fields \<open>status = success\<close>, \<open>message\<close>, \<open>data\<close>, \<open>timestamp\<close>, or an Error envelope
  with the fields \<open>status = error\<close>, \<open>error\<close>, \<open>error_code\<close>, \<open>timestamp\<close>; those of the
  middleware and of the three handlers are Error envelopes. The response of \<open>/health\<close> is
  neither: it is HTTP 200 with the health object itself, whose \<open>status\<close> is \<open>ok\<close>.
\<close>

theorem responses_are_envelopes:
  "(\<forall>r. fst (security_middleware cfg current_time ts st req) = Some r
        \<longrightarrow> is_error_envelope (fst r) \<and> \<not> is_success_envelope (fst r))
   \<and> (payload_accepted [''model'', ''prompt''] req
        \<longrightarrow> (\<exists>r calls. generate_response cfg env ts req = (Inr r, calls) \<and> is_envelope (fst r)))
   \<and> (payload_accepted [''model'', ''messages''] req
        \<longrightarrow> (\<exists>r calls. chat cfg env ts req = (Inr r, calls) \<and> is_envelope (fst r)))
   \<and> (payload_accepted [''model''] req
        \<longrightarrow> (\<exists>r calls. stop_model env ts req = (Inr r, calls) \<and> is_envelope (fst r)))
   \<and> (payload_accepted [''model''] req
        \<longrightarrow> (\<exists>r calls. pull_model cfg env ts req = (Inr r, calls) \<and> is_envelope (fst r)))
   \<and> is_envelope (fst (fst (list_models env ts)))
   \<and> is_envelope (fst (fst (process_status env ts)))
   \<and> is_error_envelope (fst (not_found ts))
   \<and> is_error_envelope (fst (method_not_allowed ts))
   \<and> is_error_envelope (fst (internal_server_error ts))
   \<and> \<not> is_success_envelope (fst (health_check cfg env))
   \<and> \<not> is_error_envelope (fst (health_check cfg env))
   \<and> snd (health_check cfg env) = 200
   \<and> (\<exists>d. fst (health_check cfg env) = JObj d \<and> map_of d ''status'' = Some (JStr ''ok''))"
proof (intro conjI allI impI)
  fix r assume "fst (security_middleware cfg current_time ts st req) = Some r"
  then have "is_error_envelope (fst r) \<and> \<not> is_success_envelope (fst r)"
    by (rule middleware_envelope)
  then show "is_error_envelope (fst r)" and "\<not> is_success_envelope (fst r)" by simp_all
next
  assume "payload_accepted [''model'', ''prompt''] req"
  then show "\<exists>r calls. generate_response cfg env ts req = (Inr r, calls) \<and> is_envelope (fst r)"
    unfolding generate_response_def log_request_info_def
    by (rule decorated_envelope) (rule generate_response_inner_envelope)
next
  assume "payload_accepted [''model'', ''messages''] req"
  then show "\<exists>r calls. chat cfg env ts req = (Inr r, calls) \<and> is_envelope (fst r)"
    unfolding chat_def log_request_info_def
    by (rule decorated_envelope) (rule chat_inner_envelope)
next
  assume "payload_accepted [''model''] req"
  then show "\<exists>r calls. stop_model env ts req = (Inr r, calls) \<and> is_envelope (fst r)"
    unfolding stop_model_def log_request_info_def
    by (rule decorated_envelope) (rule stop_model_inner_envelope)
next
  assume "payload_accepted [''model''] req"
  then show "\<exists>r calls. pull_model cfg env ts req = (Inr r, calls) \<and> is_envelope (fst r)"
    unfolding pull_model_def log_request_info_def
    by (rule decorated_envelope) (rule pull_model_inner_envelope)
next
  show "is_envelope (fst (fst (list_models env ts)))" by (rule list_models_envelope)
  show "is_envelope (fst (fst (process_status env ts)))" by (rule process_status_envelope)
  show "is_error_envelope (fst (not_found ts))"
    by (simp add: not_found_def error_response_shape)
  show "is_error_envelope (fst (method_not_allowed ts))"
    by (simp add: method_not_allowed_def error_response_shape)
  show "is_error_envelope (fst (internal_server_error ts))"
    by (simp add: internal_server_error_def error_response_shape)
  show "\<not> is_success_envelope (fst (health_check cfg env))"
    and "\<not> is_error_envelope (fst (health_check cfg env))"
    and "snd (health_check cfg env) = 200"
    and "\<exists>d. fst (health_check cfg env) = JObj d \<and> map_of d ''status'' = Some (JStr ''ok'')"
    using health_check_shape [of cfg env] by blast+
qed

theorem responses_are_envelopes_witness:
  "payload_accepted [''model'', ''prompt'']
     (example_request\<lparr>path := ''/generate'', is_json := True,
        get_json := JObj [(''model'', JStr ''llama2''), (''prompt'', JStr ''ciao'')]\<rparr>)
   \<and> (\<exists>r calls.
         generate_response default_config example_environment 101
           (example_request\<lparr>path := ''/generate'', is_json := True,
              get_json := JObj [(''model'', JStr ''llama2''), (''prompt'', JStr ''ciao'')]\<rparr>)
         = (Inr r, calls) \<and> is_envelope (fst r))"
proof -
  let ?req = "example_request\<lparr>path := ''/generate'', is_json := True,
        get_json := JObj [(''model'', JStr ''llama2''), (''prompt'', JStr ''ciao'')]\<rparr>"
  have ok: "payload_accepted [''model'', ''prompt''] ?req"
    by (simp add: payload_accepted_def missing_fields_def)
  have "payload_accepted [''model'', ''prompt''] ?req
        \<longrightarrow> (\<exists>r calls. generate_response default_config example_environment 101 ?req
                          = (Inr r, calls) \<and> is_envelope (fst r))"
    by (rule responses_are_envelopes [THEN conjunct2, THEN conjunct1])
  with ok show ?thesis by (intro conjI) (rule ok, rule mp)
qed

end
